theory Spec2Isabelle
  imports Main "HOL-Library.Sublist"
begin

unbundle bit_operations_syntax

section \<open>Addresses and keypairs\<close>

text \<open>
  A public key is either a constant written in base 58, the public half of a keypair made
  by \<open>Keypair.generate()\<close>, a program-derived address or an associated token address.
  The derivations are hashes in the library; here they are free constructors, so two
  derivations agree exactly when their inputs agree.
\<close>

datatype pubkey =
    Base58 string
  | KeypairPublicKey nat
  | ProgramAddress "seed list" pubkey
  | AssociatedTokenAddress pubkey pubkey
and seed =
    Utf8 string
  | KeyBuffer pubkey

datatype keypair = Keypair nat

fun publicKey :: "keypair \<Rightarrow> pubkey" where
  "publicKey (Keypair n) = KeypairPublicKey n"

definition findProgramAddressSync :: "seed list \<Rightarrow> pubkey \<Rightarrow> pubkey" where
  "findProgramAddressSync seeds owner = ProgramAddress seeds owner"

definition getAssociatedTokenAddressSync :: "pubkey \<Rightarrow> pubkey \<Rightarrow> bool \<Rightarrow> pubkey" where
  "getAssociatedTokenAddressSync mint owner allowOwnerOffCurve = AssociatedTokenAddress mint owner"

section \<open>Big numbers\<close>

text \<open>
  \<open>BN\<close> is an unbounded integer; every value the hook builds is non-negative, so it is a
  natural number here. \<open>shln\<close> shifts left and \<open>or\<close> is the bitwise disjunction.
\<close>

type_synonym BN = nat

definition shln :: "BN \<Rightarrow> nat \<Rightarrow> BN" where
  "shln x bits = push_bit bits x"

definition bn_or :: "BN \<Rightarrow> BN \<Rightarrow> BN" where
  "bn_or x y = x OR y"

section \<open>Instructions and transactions\<close>

type_synonym blockhash = string

text \<open>The JavaScript number \<open>0.1\<close> is kept as its decimal literal: digits and exponent of ten.\<close>

record oracleConfigParams =
  confFilter :: "int \<times> int"
  maxStalenessSlots :: nat

record createMarketAccounts =
  market :: pubkey
  marketAuthority :: pubkey
  bids :: pubkey
  asks :: pubkey
  eventHeap :: pubkey
  payer :: pubkey
  marketBaseVault :: pubkey
  marketQuoteVault :: pubkey
  baseMint :: pubkey
  quoteMint :: pubkey
  oracleA :: "pubkey option"
  oracleB :: "pubkey option"
  collectFeeAdmin :: pubkey
  openOrdersAdmin :: "pubkey option"
  consumeEventsAdmin :: "pubkey option"
  closeMarketAdmin :: "pubkey option"
  eventAuthority :: pubkey
  program :: pubkey

text \<open>
  \<open>VaultInstruction\<close> stands for an instruction built by \<open>initializeVault\<close> of the hook
  \<open>useConditionalVault\<close>, whose code is outside this development: only the accounts it
  references are known.
\<close>

datatype instruction =
    CreateAccount (fromPubkey: pubkey) (newAccountPubkey: pubkey) (lamports: nat)
      (space: nat) (owner: pubkey)
  | CreateMarket string oracleConfigParams BN BN BN BN BN createMarketAccounts
  | CreateTwapMarket BN pubkey pubkey pubkey
  | InitializeDaoIx pubkey pubkey pubkey
  | VaultInstruction "pubkey list"

record transaction =
  instructions :: "instruction list"
  feePayer :: "pubkey option"
  recentBlockhash :: "blockhash option"
  signatures :: "keypair list"

datatype item = Tx transaction | Ix instruction

fun itemInstructions :: "item \<Rightarrow> instruction list" where
  "itemInstructions (Tx t) = instructions t"
| "itemInstructions (Ix i) = [i]"

definition newTransaction :: transaction where
  "newTransaction = \<lparr>instructions = [], feePayer = None, recentBlockhash = None, signatures = []\<rparr>"

definition add :: "transaction \<Rightarrow> item list \<Rightarrow> transaction" where
  "add t items = t\<lparr>instructions := instructions t @ concat (map itemInstructions items)\<rparr>"

text \<open>The accounts an instruction references.\<close>

fun instructionKeys :: "instruction \<Rightarrow> pubkey list" where
  "instructionKeys (CreateAccount f n l s p) = [f, n]"
| "instructionKeys (CreateMarket name cfg ql bl mf tf te a) =
     [market a, marketAuthority a, bids a, asks a, eventHeap a, payer a, marketBaseVault a,
      marketQuoteVault a, baseMint a, quoteMint a] @ List.map_filter id
       [oracleA a, oracleB a, Some (collectFeeAdmin a), openOrdersAdmin a,
        consumeEventsAdmin a, closeMarketAdmin a] @ [eventAuthority a]"
| "instructionKeys (CreateTwapMarket w m t p) = [m, t, p]"
| "instructionKeys (InitializeDaoIx d m u) = [d, m, u]"
| "instructionKeys (VaultInstruction ks) = ks"

definition transactionKeys :: "transaction \<Rightarrow> pubkey list" where
  "transactionKeys t = concat (map instructionKeys (instructions t))"

section \<open>The environment and the state of a run\<close>

datatype error = Rejected string

text \<open>
  The six transaction objects of \<open>initializeDao\<close> are mutated after they are built, so they
  live in a store indexed by the name of the variable that holds them.
\<close>

datatype txName = BaseVaultTx | QuoteVaultTx | DaoTx | PassMarketTx | FailMarketTx | TwapsTx

datatype event =
    InitializeVault pubkey pubkey BN
  | GetMinimumBalanceForRentExemption nat
  | KeypairGenerate keypair
  | GetLatestBlockhash
  | SetFeePayer txName pubkey
  | SetRecentBlockhash txName blockhash
  | Sign txName "keypair list"
  | SignAllTransactions "transaction list"
  | SendRawTransaction transaction bool

text \<open>
  The network answers the \<open>k\<close>-th request for the latest blockhash with
  \<open>getLatestBlockhash c k\<close>, so that two requests may get two different answers.
\<close>

record connection =
  getLatestBlockhash :: "nat \<Rightarrow> error + blockhash"
  getMinimumBalanceForRentExemption :: "nat \<Rightarrow> error + nat"
  sendRawTransaction :: "transaction \<Rightarrow> error + string"

record programHandle =
  programId :: pubkey
  provider :: connection

record token =
  token_publicKey :: "pubkey option"

record tokenSet =
  meta :: "token option"
  usdc :: "token option"

record walletContext =
  wallet_publicKey :: "pubkey option"
  signAllTransactions :: "(transaction list \<Rightarrow> error + transaction list) option"

record built =
  tx :: transaction
  signers :: "keypair list"

record builtMarket =
  market_signers :: "keypair list"
  market_instructions :: "item list"

record daoAccount =
  proposalCount :: nat

record world =
  generated :: nat
  fetched :: nat
  heap :: "txName \<Rightarrow> transaction"
  log :: "event list"

definition initialWorld :: world where
  "initialWorld = \<lparr>generated = 0, fetched = 0, heap = (\<lambda>_. newTransaction), log = []\<rparr>"

text \<open>
  An action runs in the world and either resolves with a value or rejects, as an awaited
  promise does. \<open>andThen m f\<close> is \<open>await m\<close> followed by the rest of the function: when \<open>m\<close>
  rejects, the run ends there with that rejection. The log keeps, in program order, the
  requests that leave the function and the steps taken on the six transactions.
\<close>

type_synonym 'a action = "world \<Rightarrow> (error + 'a) \<times> world"

definition resolve :: "'a \<Rightarrow> 'a action" where
  "resolve x = (\<lambda>w. (Inr x, w))"

definition andThen :: "'a action \<Rightarrow> ('a \<Rightarrow> 'b action) \<Rightarrow> 'b action" where
  "andThen m f = (\<lambda>w. case m w of (Inl e, w') \<Rightarrow> (Inl e, w') | (Inr x, w') \<Rightarrow> f x w')"

definition call :: "event \<Rightarrow> (error + 'a) \<Rightarrow> 'a action" where
  "call e answer = (\<lambda>w. (answer, w\<lparr>log := log w @ [e]\<rparr>))"

text \<open>
  \<open>Keypair.generate()\<close> draws a keypair at random. Here the keypairs are numbered in the
  order in which they are generated, so a generated keypair is never one generated before.
\<close>

definition Keypair_generate :: "keypair action" where
  "Keypair_generate = (\<lambda>w. (Inr (Keypair (generated w)),
     w\<lparr>generated := Suc (generated w), log := log w @ [KeypairGenerate (Keypair (generated w))]\<rparr>))"

definition fetchLatestBlockhash :: "connection \<Rightarrow> blockhash action" where
  "fetchLatestBlockhash c = (\<lambda>w. (getLatestBlockhash c (fetched w),
     w\<lparr>fetched := Suc (fetched w), log := log w @ [GetLatestBlockhash]\<rparr>))"

text \<open>
  \<open>new Transaction().add(...)\<close>, the assignments to \<open>feePayer\<close> and \<open>recentBlockhash\<close>, and
  \<open>sign(...)\<close> act on the stored transaction. \<open>sign\<close> records the signers it is given; what
  the library checks inside \<open>sign\<close> and \<open>serialize\<close> is outside the model.
\<close>

definition createTransaction :: "txName \<Rightarrow> item list \<Rightarrow> unit action" where
  "createTransaction n items = (\<lambda>w. (Inr (), w\<lparr>heap := (heap w)(n := add newTransaction items)\<rparr>))"

definition setFeePayer :: "txName \<Rightarrow> pubkey \<Rightarrow> unit action" where
  "setFeePayer n k = (\<lambda>w. (Inr (),
     w\<lparr>heap := (heap w)(n := (heap w n)\<lparr>feePayer := Some k\<rparr>), log := log w @ [SetFeePayer n k]\<rparr>))"

definition setRecentBlockhash :: "txName \<Rightarrow> blockhash \<Rightarrow> unit action" where
  "setRecentBlockhash n b = (\<lambda>w. (Inr (),
     w\<lparr>heap := (heap w)(n := (heap w n)\<lparr>recentBlockhash := Some b\<rparr>),
       log := log w @ [SetRecentBlockhash n b]\<rparr>))"

definition sign :: "txName \<Rightarrow> keypair list \<Rightarrow> unit action" where
  "sign n ks = (\<lambda>w. (Inr (),
     w\<lparr>heap := (heap w)(n := (heap w n)\<lparr>signatures := ks\<rparr>), log := log w @ [Sign n ks]\<rparr>))"

text \<open>
  \<open>Promise.all\<close> over the mapped sends: every send is issued, and the whole rejects when one
  of them does.
\<close>

fun firstRejection :: "(error + 'a) list \<Rightarrow> error + unit" where
  "firstRejection [] = Inr ()"
| "firstRejection (Inl e # rs) = Inl e"
| "firstRejection (Inr x # rs) = firstRejection rs"

definition sendAll :: "connection \<Rightarrow> transaction list \<Rightarrow> unit action" where
  "sendAll c signedTxs = (\<lambda>w. (firstRejection (map (sendRawTransaction c) signedTxs),
     w\<lparr>log := log w @ map (\<lambda>t. SendRawTransaction t True) signedTxs\<rparr>))"

section \<open>Provisioning the accounts of an order-book market\<close>

definition OPENBOOK_PROGRAM_ID :: pubkey where
  "OPENBOOK_PROGRAM_ID = Base58 ''opnb2LAfJYbRMAHHvqjCwQxanZn7ReEHp1k81EohpZb''"

definition OPENBOOK_TWAP_PROGRAM_ID :: pubkey where
  "OPENBOOK_TWAP_PROGRAM_ID = Base58 ''2qjEsiMtWxAdqUSdaGM28pJRMtodnnkHZEoadc6JcFCb''"

definition BooksideSpace :: nat where
  "BooksideSpace = 90944 + 8"

definition EventHeapSpace :: nat where
  "EventHeapSpace = 91280 + 8"

definition createProgramAccount :: "programHandle \<Rightarrow> pubkey \<Rightarrow> nat \<Rightarrow> built action" where
  "createProgramAccount prog authority size' =
     andThen (call (GetMinimumBalanceForRentExemption size')
                (getMinimumBalanceForRentExemption (provider prog) size')) (\<lambda>lamports'.
     andThen Keypair_generate (\<lambda>address.
     resolve \<lparr>tx = add newTransaction
                 [Ix (CreateAccount authority (publicKey address) lamports' size' (programId prog))],
              signers = [address]\<rparr>))"

definition createOpenbookMarket ::
  "programHandle \<Rightarrow> pubkey \<Rightarrow> pubkey \<Rightarrow> pubkey \<Rightarrow> string \<Rightarrow> BN \<Rightarrow> BN \<Rightarrow> BN \<Rightarrow> BN \<Rightarrow> BN \<Rightarrow>
   pubkey option \<Rightarrow> pubkey option \<Rightarrow> pubkey option \<Rightarrow> pubkey option \<Rightarrow> pubkey option \<Rightarrow>
   oracleConfigParams option \<Rightarrow> keypair option \<Rightarrow> pubkey option \<Rightarrow> builtMarket action" where
  "createOpenbookMarket prog creator baseMint' quoteMint' name quoteLotSize baseLotSize makerFee
     takerFee timeExpiry oracleA' oracleB' openOrdersAdmin' consumeEventsAdmin' closeMarketAdmin'
     oracleConfigParams' market' collectFeeAdmin' =
     andThen (case market' of Some kp \<Rightarrow> resolve kp | None \<Rightarrow> Keypair_generate) (\<lambda>marketKP.
     andThen (createProgramAccount prog creator BooksideSpace) (\<lambda>bids'.
     andThen (createProgramAccount prog creator BooksideSpace) (\<lambda>asks'.
     andThen (createProgramAccount prog creator EventHeapSpace) (\<lambda>eventHeap'.
     let marketAuthority' = findProgramAddressSync
           [Utf8 ''Market'', KeyBuffer (publicKey marketKP)] (programId prog);
         baseVault = getAssociatedTokenAddressSync baseMint' marketAuthority' True;
         quoteVault = getAssociatedTokenAddressSync quoteMint' marketAuthority' True;
         eventAuthority' = findProgramAddressSync [Utf8 ''__event_authority''] (programId prog)
     in resolve
       \<lparr>market_signers = signers bids' @ signers asks' @ signers eventHeap',
        market_instructions =
          [Tx (tx bids'), Tx (tx asks'), Tx (tx eventHeap'),
           Ix (CreateMarket name
                 (case oracleConfigParams' of Some c \<Rightarrow> c
                  | None \<Rightarrow> \<lparr>confFilter = (1, -1), maxStalenessSlots = 100\<rparr>)
                 quoteLotSize baseLotSize makerFee takerFee timeExpiry
                 \<lparr>market = publicKey marketKP,
                  marketAuthority = marketAuthority',
                  bids = publicKey (hd (signers bids')),
                  asks = publicKey (hd (signers asks')),
                  eventHeap = publicKey (hd (signers eventHeap')),
                  payer = creator,
                  marketBaseVault = baseVault,
                  marketQuoteVault = quoteVault,
                  baseMint = baseMint',
                  quoteMint = quoteMint',
                  oracleA = oracleA',
                  oracleB = oracleB',
                  collectFeeAdmin = (case collectFeeAdmin' of Some a \<Rightarrow> a | None \<Rightarrow> creator),
                  openOrdersAdmin = openOrdersAdmin',
                  consumeEventsAdmin = consumeEventsAdmin',
                  closeMarketAdmin = closeMarketAdmin',
                  eventAuthority = eventAuthority',
                  program = programId prog\<rparr>)]\<rparr>))))"

section \<open>The hook \<open>useAutocrat\<close>\<close>

text \<open>
  What a render of the hook has in scope. \<open>initializeVault\<close> comes from the hook
  \<open>useConditionalVault\<close>, whose code is outside this development, so it is a parameter:
  it is asked for a vault and answers with a transaction and its signers, or rejects.
  \<open>useProvider\<close> is the connection of the provider that the program handles are built on.
\<close>

record autocrat =
  useProvider :: connection
  wallet :: "walletContext option"
  connection :: "connection option"
  initializeVault :: "pubkey \<Rightarrow> pubkey \<Rightarrow> BN \<Rightarrow> error + built"
  tokens :: "tokenSet option"
  daoState :: "daoAccount option"

definition programId' :: pubkey where
  "programId' = Base58 ''meta3cxKzFBmWYgCVozmvCQAS3y9b3fGxrG9HkHL7Wi''"

definition dao :: pubkey where
  "dao = findProgramAddressSync [Utf8 ''WWCACOTMICMIBMHAFTTWYGHMB''] programId'"

definition daoTreasury :: pubkey where
  "daoTreasury = findProgramAddressSync [KeyBuffer dao] programId'"

definition openbook :: "autocrat \<Rightarrow> programHandle" where
  "openbook h = \<lparr>programId = OPENBOOK_PROGRAM_ID, provider = useProvider h\<rparr>"

definition openbookTwap :: "autocrat \<Rightarrow> programHandle" where
  "openbookTwap h = \<lparr>programId = OPENBOOK_TWAP_PROGRAM_ID, provider = useProvider h\<rparr>"

text \<open>\<open>new BN(daoState?.proposalCount || 0)\<close>: a missing state and a zero count both give 0.\<close>

definition baseNonce :: "autocrat \<Rightarrow> BN" where
  "baseNonce h = (case daoState h of None \<Rightarrow> 0
     | Some d \<Rightarrow> if proposalCount d = 0 then 0 else proposalCount d)"

text \<open>
  The effect of the hook fetches the Dao account only under \<open>!dao\<close>. \<open>dao\<close> is a
  \<open>PublicKey\<close> object, and in JavaScript every object is truthy.
\<close>

definition truthy :: "pubkey \<Rightarrow> bool" where
  "truthy k = True"

definition fetchState :: "(pubkey \<Rightarrow> error + daoAccount) \<Rightarrow> daoAccount option \<Rightarrow> daoAccount option" where
  "fetchState fetch st = (case fetch dao of Inr d \<Rightarrow> Some d | Inl err \<Rightarrow> st)"

definition useEffect :: "(pubkey \<Rightarrow> error + daoAccount) \<Rightarrow> daoAccount option \<Rightarrow> daoAccount option" where
  "useEffect fetch st = (if \<not> truthy dao then fetchState fetch st else st)"

text \<open>
  The states of \<open>daoState\<close> over the life of the hook: \<open>useState\<close> starts it undefined, and
  only the effect sets it, after a render, against whatever the chain holds at that time.
\<close>

inductive reachableDaoState :: "daoAccount option \<Rightarrow> bool" where
  mounted: "reachableDaoState None"
| rendered: "reachableDaoState st \<Longrightarrow> reachableDaoState (useEffect fetch st)"

definition optionalKey :: "token option \<Rightarrow> pubkey option" where
  "optionalKey t = Option.bind t token_publicKey"

definition requestVault :: "autocrat \<Rightarrow> pubkey \<Rightarrow> pubkey \<Rightarrow> BN \<Rightarrow> built action" where
  "requestVault h authority mint nonce =
     call (InitializeVault authority mint nonce) (initializeVault h authority mint nonce)"

definition requestSignatures ::
  "(transaction list \<Rightarrow> error + transaction list) \<Rightarrow> txName list \<Rightarrow> transaction list action" where
  "requestSignatures signAll txs =
     (\<lambda>w. call (SignAllTransactions (map (heap w) txs)) (signAll (map (heap w) txs)) w)"

definition initializeDao :: "autocrat \<Rightarrow> unit action" where
  "initializeDao h =
    (if Option.bind (tokens h) (\<lambda>t. optionalKey (meta t)) = None \<or>
        Option.bind (tokens h) (\<lambda>t. optionalKey (usdc t)) = None \<or>
        Option.bind (wallet h) wallet_publicKey = None \<or>
        Option.bind (wallet h) signAllTransactions = None \<or>
        connection h = None
     then resolve ()
     else
       let metaKey = the (optionalKey (meta (the (tokens h))));
           usdcKey = the (optionalKey (usdc (the (tokens h))));
           walletKey = the (wallet_publicKey (the (wallet h)));
           signAll = the (signAllTransactions (the (wallet h)));
           conn = the (connection h)
       in
       andThen (requestVault h daoTreasury metaKey (baseNonce h)) (\<lambda>basePassVault.
       andThen (requestVault h daoTreasury usdcKey
                  (bn_or (baseNonce h) (shln 1 63))) (\<lambda>quotePassVault.
       andThen (requestVault h daoTreasury metaKey
                  (bn_or (baseNonce h) (shln 1 62))) (\<lambda>baseFailVault.
       andThen (requestVault h daoTreasury usdcKey
                  (bn_or (baseNonce h) (shln 3 62))) (\<lambda>quoteFailVault.
       andThen Keypair_generate (\<lambda>openbookPassMarketKP.
       let openbookTwapPassMarket = findProgramAddressSync
             [Utf8 ''twap_market'', KeyBuffer (publicKey openbookPassMarketKP)]
             (programId (openbookTwap h)) in
       andThen (createOpenbookMarket (openbook h) walletKey metaKey usdcKey ''Pass-Market''
                  100 1000000000 0 0 0 None None (Some openbookTwapPassMarket) None
                  (Some openbookTwapPassMarket)
                  (Some \<lparr>confFilter = (1, -1), maxStalenessSlots = 100\<rparr>)
                  (Some openbookPassMarketKP) None) (\<lambda>openbookPassMarket.
       let createPassTwapMarketIx = CreateTwapMarket 1000
             (publicKey openbookPassMarketKP) openbookTwapPassMarket walletKey in
       andThen Keypair_generate (\<lambda>openbookFailMarketKP.
       let openbookTwapFailMarket = findProgramAddressSync
             [Utf8 ''twap_market'', KeyBuffer (publicKey openbookFailMarketKP)]
             (programId (openbookTwap h)) in
       andThen (createOpenbookMarket (openbook h) walletKey metaKey usdcKey ''fMETA/fUSDC''
                  100 1000000000 0 0 0 None None (Some openbookTwapFailMarket) None
                  (Some openbookTwapFailMarket)
                  (Some \<lparr>confFilter = (1, -1), maxStalenessSlots = 100\<rparr>)
                  (Some openbookFailMarketKP) None) (\<lambda>openbookFailMarket.
       let createFailTwapMarketIx = CreateTwapMarket 1000
             (publicKey openbookFailMarketKP) openbookTwapFailMarket walletKey;
           txs = [] in
       andThen (createTransaction BaseVaultTx
                  [Tx (tx basePassVault), Tx (tx baseFailVault)]) (\<lambda>_.
       andThen (createTransaction QuoteVaultTx
                  [Tx (tx quotePassVault), Tx (tx quoteFailVault)]) (\<lambda>_.
       andThen (createTransaction DaoTx [Ix (InitializeDaoIx dao metaKey usdcKey)]) (\<lambda>_.
       andThen (createTransaction PassMarketTx (market_instructions openbookPassMarket)) (\<lambda>_.
       andThen (createTransaction FailMarketTx (market_instructions openbookFailMarket)) (\<lambda>_.
       andThen (createTransaction TwapsTx
                  [Ix createPassTwapMarketIx, Ix createFailTwapMarketIx]) (\<lambda>_.
       andThen (fetchLatestBlockhash conn) (\<lambda>blockhask.
       andThen (setFeePayer BaseVaultTx walletKey) (\<lambda>_.
       andThen (setRecentBlockhash BaseVaultTx blockhask) (\<lambda>_.
       andThen (setFeePayer QuoteVaultTx walletKey) (\<lambda>_.
       andThen (setRecentBlockhash QuoteVaultTx blockhask) (\<lambda>_.
       andThen (setFeePayer DaoTx walletKey) (\<lambda>_.
       andThen (setRecentBlockhash DaoTx blockhask) (\<lambda>_.
       andThen (setFeePayer TwapsTx walletKey) (\<lambda>_.
       andThen (setRecentBlockhash TwapsTx blockhask) (\<lambda>_.
       andThen (setFeePayer PassMarketTx walletKey) (\<lambda>_.
       andThen (setRecentBlockhash PassMarketTx blockhask) (\<lambda>_.
       andThen (setFeePayer FailMarketTx walletKey) (\<lambda>_.
       andThen (setRecentBlockhash FailMarketTx blockhask) (\<lambda>_.
       andThen (sign BaseVaultTx (signers basePassVault @ signers baseFailVault)) (\<lambda>_.
       andThen (sign QuoteVaultTx (signers quotePassVault @ signers quoteFailVault)) (\<lambda>_.
       andThen (sign PassMarketTx
                  (market_signers openbookPassMarket @ [openbookPassMarketKP])) (\<lambda>_.
       andThen (sign FailMarketTx
                  (market_signers openbookFailMarket @ [openbookFailMarketKP])) (\<lambda>_.
       let txs = txs @ [PassMarketTx, FailMarketTx];
           txs = txs @ [BaseVaultTx, QuoteVaultTx];
           txs = txs @ [DaoTx] in
       andThen (requestSignatures signAll txs) (\<lambda>signedTxs.
       sendAll conn signedTxs)))))))))))))))))))))))))))))))))"

section \<open>A concrete render\<close>

text \<open>
  A wallet that signs whatever it is given, a network that answers every request, and a
  vault hook that answers with one instruction and the keypair of the vault's token mint.
\<close>

definition sampleConnection :: connection where
  "sampleConnection =
     \<lparr>getLatestBlockhash = (\<lambda>k. Inr (if k = 0 then ''first'' else ''later'')),
      getMinimumBalanceForRentExemption = (\<lambda>n. Inr ((n + 128) * 6960)),
      sendRawTransaction = (\<lambda>t. Inr ''signature'')\<rparr>"

definition sampleVault :: "pubkey \<Rightarrow> pubkey \<Rightarrow> BN \<Rightarrow> error + built" where
  "sampleVault authority mint nonce =
     Inr \<lparr>tx = add newTransaction
                [Ix (VaultInstruction [authority, mint, KeypairPublicKey (1000 + nonce)])],
          signers = [Keypair (1000 + nonce)]\<rparr>"

definition sampleHook :: "daoAccount option \<Rightarrow> autocrat" where
  "sampleHook st =
     \<lparr>useProvider = sampleConnection,
      wallet = Some \<lparr>wallet_publicKey = Some (Base58 ''wallet''),
                     signAllTransactions = Some (\<lambda>txs. Inr txs)\<rparr>,
      connection = Some sampleConnection,
      initializeVault = sampleVault,
      tokens = Some \<lparr>meta = Some \<lparr>token_publicKey = Some (Base58 ''META'')\<rparr>,
                     usdc = Some \<lparr>token_publicKey = Some (Base58 ''USDC'')\<rparr>\<rparr>,
      daoState = st\<rparr>"

section \<open>The outcome of a run, written out\<close>

text \<open>
  The definitions of this section are not part of the program: they name what a run is shown
  to produce, so that the lemmas about it stay readable.
\<close>

text \<open>The market that \<open>createOpenbookMarket\<close> returns when it is given the market keypair
  \<open>kp\<close>, the next generated keypair has number \<open>g\<close>, and the network answers \<open>lb\<close> and \<open>le\<close>
  lamports for the two sizes.\<close>

definition builtOpenbookMarket ::
  "programHandle \<Rightarrow> pubkey \<Rightarrow> pubkey \<Rightarrow> pubkey \<Rightarrow> string \<Rightarrow> BN \<Rightarrow> BN \<Rightarrow> BN \<Rightarrow> BN \<Rightarrow> BN \<Rightarrow>
   pubkey option \<Rightarrow> pubkey option \<Rightarrow> pubkey option \<Rightarrow> pubkey option \<Rightarrow> pubkey option \<Rightarrow>
   oracleConfigParams option \<Rightarrow> keypair \<Rightarrow> pubkey option \<Rightarrow> nat \<Rightarrow> nat \<Rightarrow> nat \<Rightarrow> builtMarket" where
  "builtOpenbookMarket prog creator bm qm name ql bl mf tf te oa ob ooa cea cma cfg kp cfa g lb le =
     \<lparr>market_signers = [Keypair g, Keypair (Suc g), Keypair (Suc (Suc g))],
      market_instructions =
        [Tx (add newTransaction
               [Ix (CreateAccount creator (KeypairPublicKey g) lb BooksideSpace (programId prog))]),
         Tx (add newTransaction
               [Ix (CreateAccount creator (KeypairPublicKey (Suc g)) lb BooksideSpace
                      (programId prog))]),
         Tx (add newTransaction
               [Ix (CreateAccount creator (KeypairPublicKey (Suc (Suc g))) le EventHeapSpace
                      (programId prog))]),
         Ix (CreateMarket name
               (case cfg of Some c \<Rightarrow> c | None \<Rightarrow> \<lparr>confFilter = (1, -1), maxStalenessSlots = 100\<rparr>)
               ql bl mf tf te
               \<lparr>market = publicKey kp,
                marketAuthority =
                  ProgramAddress [Utf8 ''Market'', KeyBuffer (publicKey kp)] (programId prog),
                bids = KeypairPublicKey g,
                asks = KeypairPublicKey (Suc g),
                eventHeap = KeypairPublicKey (Suc (Suc g)),
                payer = creator,
                marketBaseVault = AssociatedTokenAddress bm
                  (ProgramAddress [Utf8 ''Market'', KeyBuffer (publicKey kp)] (programId prog)),
                marketQuoteVault = AssociatedTokenAddress qm
                  (ProgramAddress [Utf8 ''Market'', KeyBuffer (publicKey kp)] (programId prog)),
                baseMint = bm,
                quoteMint = qm,
                oracleA = oa,
                oracleB = ob,
                collectFeeAdmin = (case cfa of Some a \<Rightarrow> a | None \<Rightarrow> creator),
                openOrdersAdmin = ooa,
                consumeEventsAdmin = cea,
                closeMarketAdmin = cma,
                eventAuthority = ProgramAddress [Utf8 ''__event_authority''] (programId prog),
                program = programId prog\<rparr>)]\<rparr>"

text \<open>The requests and key generations that provisioning one market's three accounts logs.\<close>

definition provisioning :: "nat \<Rightarrow> event list" where
  "provisioning g =
     [GetMinimumBalanceForRentExemption BooksideSpace, KeypairGenerate (Keypair g),
      GetMinimumBalanceForRentExemption BooksideSpace, KeypairGenerate (Keypair (Suc g)),
      GetMinimumBalanceForRentExemption EventHeapSpace, KeypairGenerate (Keypair (Suc (Suc g)))]"

text \<open>The values that pass the guard of \<open>initializeDao\<close>.\<close>

definition inScope ::
  "autocrat \<Rightarrow> pubkey \<Rightarrow> pubkey \<Rightarrow> pubkey \<Rightarrow> (transaction list \<Rightarrow> error + transaction list) \<Rightarrow>
   connection \<Rightarrow> bool" where
  "inScope h metaKey usdcKey walletKey signAll conn \<longleftrightarrow>
     Option.bind (tokens h) (\<lambda>t. optionalKey (meta t)) = Some metaKey \<and>
     Option.bind (tokens h) (\<lambda>t. optionalKey (usdc t)) = Some usdcKey \<and>
     Option.bind (wallet h) wallet_publicKey = Some walletKey \<and>
     Option.bind (wallet h) signAllTransactions = Some signAll \<and>
     connection h = Some conn"

text \<open>Events of the phase that builds instructions, before any transaction exists.\<close>

fun buildingEvent :: "event \<Rightarrow> bool" where
  "buildingEvent (InitializeVault a m n) = True"
| "buildingEvent (GetMinimumBalanceForRentExemption n) = True"
| "buildingEvent (KeypairGenerate k) = True"
| "buildingEvent e = False"

text \<open>The vaults a run asked for, read off its log: authority, mint and nonce.\<close>

fun vaultRequests :: "event list \<Rightarrow> (pubkey \<times> pubkey \<times> BN) list" where
  "vaultRequests [] = []"
| "vaultRequests (InitializeVault a m n # es) = (a, m, n) # vaultRequests es"
| "vaultRequests (e # es) = vaultRequests es"

definition requestedNonces :: "event list \<Rightarrow> BN list" where
  "requestedNonces es = map (\<lambda>(a, m, n). n) (vaultRequests es)"

text \<open>A wallet without the capability to sign a batch.\<close>

definition lockedHook :: autocrat where
  "lockedHook = (sampleHook None)
     \<lparr>wallet := Some \<lparr>wallet_publicKey = Some (Base58 ''wallet''), signAllTransactions = None\<rparr>\<rparr>"

text \<open>
  A state of \<open>daoState\<close> after two renders: the first fetch would be rejected, the second
  would find a Dao account that counts seven proposals.
\<close>

definition refetched :: "daoAccount option" where
  "refetched = useEffect (\<lambda>k. Inr \<lparr>proposalCount = 7\<rparr>)
                 (useEffect (\<lambda>k. Inl (Rejected ''offline'')) None)"

text \<open>The keypairs a run generated, read off its log.\<close>

fun generatedKeypairs :: "event list \<Rightarrow> keypair list" where
  "generatedKeypairs [] = []"
| "generatedKeypairs (KeypairGenerate k # es) = k # generatedKeypairs es"
| "generatedKeypairs (e # es) = generatedKeypairs es"

text \<open>The names pushed onto \<open>txs\<close>, in the order of the pushes.\<close>

definition handedOver :: "txName list" where
  "handedOver = [PassMarketTx, FailMarketTx, BaseVaultTx, QuoteVaultTx, DaoTx]"

text \<open>The answers to the requests of the building phase.\<close>

definition answered :: "autocrat \<Rightarrow> pubkey \<Rightarrow> pubkey \<Rightarrow> built \<Rightarrow> built \<Rightarrow> built \<Rightarrow> built \<Rightarrow> nat \<Rightarrow> nat \<Rightarrow> bool" where
  "answered h mk uk bp qp bf qf lb le \<longleftrightarrow>
     initializeVault h daoTreasury mk (baseNonce h) = Inr bp \<and>
     initializeVault h daoTreasury uk (bn_or (baseNonce h) (shln 1 63)) = Inr qp \<and>
     initializeVault h daoTreasury mk (bn_or (baseNonce h) (shln 1 62)) = Inr bf \<and>
     initializeVault h daoTreasury uk (bn_or (baseNonce h) (shln 3 62)) = Inr qf \<and>
     getMinimumBalanceForRentExemption (useProvider h) BooksideSpace = Inr lb \<and>
     getMinimumBalanceForRentExemption (useProvider h) EventHeapSpace = Inr le"

text \<open>The batches a run handed to the wallet, and the transactions it sent, read off its log.\<close>

fun signingRequests :: "event list \<Rightarrow> transaction list list" where
  "signingRequests [] = []"
| "signingRequests (SignAllTransactions txs # es) = txs # signingRequests es"
| "signingRequests (e # es) = signingRequests es"

fun sentTransactions :: "event list \<Rightarrow> transaction list" where
  "sentTransactions [] = []"
| "sentTransactions (SendRawTransaction t b # es) = t # sentTransactions es"
| "sentTransactions (e # es) = sentTransactions es"

text \<open>The world that the sample render leaves behind.\<close>

definition sampleRun :: world where
  "sampleRun = snd (initializeDao (sampleHook None) initialWorld)"

text \<open>The keypairs that the sample vault hook makes when the base nonce is 0.\<close>

definition sampleVaultKeypairs :: "keypair set" where
  "sampleVaultKeypairs = {Keypair 1000, Keypair (1000 + 2 ^ 63), Keypair (1000 + 2 ^ 62),
     Keypair (1000 + 3 * 2 ^ 62)}"

text \<open>
  \<open>holdsAt P [] xs\<close> checks \<open>P\<close> at every position of \<open>xs\<close>, against what precedes and
  what follows that position.
\<close>

fun holdsAt :: "('a list \<Rightarrow> 'a \<Rightarrow> 'a list \<Rightarrow> bool) \<Rightarrow> 'a list \<Rightarrow> 'a list \<Rightarrow> bool" where
  "holdsAt P pre [] = True"
| "holdsAt P pre (x # xs) = (P pre x xs \<and> holdsAt P (pre @ [x]) xs)"

text \<open>
  The order that signing keeps: a partial signature comes after the fee payer and the
  blockhash of its transaction are set and before the batch goes to the wallet, and neither
  is set again on that transaction afterwards; the batch holds transactions with both set,
  and no partial signature and no assignment of a fee payer or blockhash follows it.
\<close>

definition signedInOrder :: "event list \<Rightarrow> event \<Rightarrow> event list \<Rightarrow> bool" where
  "signedInOrder pre e post =
     (case e of
        Sign n ks \<Rightarrow> (\<exists>k. SetFeePayer n k \<in> set pre) \<and> (\<exists>b. SetRecentBlockhash n b \<in> set pre) \<and>
                     (\<forall>txs. SignAllTransactions txs \<notin> set pre) \<and>
                     (\<forall>k. SetFeePayer n k \<notin> set post) \<and>
                     (\<forall>b. SetRecentBlockhash n b \<notin> set post)
      | SignAllTransactions txs \<Rightarrow>
          (\<forall>t \<in> set txs. feePayer t \<noteq> None \<and> recentBlockhash t \<noteq> None) \<and>
          (\<forall>n ks. Sign n ks \<notin> set post) \<and>
          (\<forall>n k. SetFeePayer n k \<notin> set post) \<and>
          (\<forall>n b. SetRecentBlockhash n b \<notin> set post)
      | _ \<Rightarrow> True)"

section \<open>Stepping through a run\<close>

lemma andThen_resolve: "andThen (resolve x) f w = f x w"
  by (simp add: andThen_def resolve_def)

lemma andThen_call: "andThen (call e a) f w =
   (case a of Inl x \<Rightarrow> (Inl x, w\<lparr>log := log w @ [e]\<rparr>) | Inr x \<Rightarrow> f x (w\<lparr>log := log w @ [e]\<rparr>))"
  by (simp add: andThen_def call_def split: sum.splits)

lemma andThen_generate: "andThen Keypair_generate f w = f (Keypair (generated w))
   (w\<lparr>generated := Suc (generated w), log := log w @ [KeypairGenerate (Keypair (generated w))]\<rparr>)"
  by (simp add: andThen_def Keypair_generate_def)

lemma andThen_fetch: "andThen (fetchLatestBlockhash c) f w =
   (case getLatestBlockhash c (fetched w) of
      Inl x \<Rightarrow> (Inl x, w\<lparr>fetched := Suc (fetched w), log := log w @ [GetLatestBlockhash]\<rparr>)
    | Inr x \<Rightarrow> f x (w\<lparr>fetched := Suc (fetched w), log := log w @ [GetLatestBlockhash]\<rparr>))"
  by (simp add: andThen_def fetchLatestBlockhash_def split: sum.splits)

lemma andThen_createTransaction: "andThen (createTransaction n items) f w =
   f () (w\<lparr>heap := (heap w)(n := add newTransaction items)\<rparr>)"
  by (simp add: andThen_def createTransaction_def)

lemma andThen_setFeePayer: "andThen (setFeePayer n k) f w =
   f () (w\<lparr>heap := (heap w)(n := (heap w n)\<lparr>feePayer := Some k\<rparr>),
          log := log w @ [SetFeePayer n k]\<rparr>)"
  by (simp add: andThen_def setFeePayer_def)

lemma andThen_setRecentBlockhash: "andThen (setRecentBlockhash n b) f w =
   f () (w\<lparr>heap := (heap w)(n := (heap w n)\<lparr>recentBlockhash := Some b\<rparr>),
          log := log w @ [SetRecentBlockhash n b]\<rparr>)"
  by (simp add: andThen_def setRecentBlockhash_def)

lemma andThen_sign: "andThen (sign n ks) f w =
   f () (w\<lparr>heap := (heap w)(n := (heap w n)\<lparr>signatures := ks\<rparr>), log := log w @ [Sign n ks]\<rparr>)"
  by (simp add: andThen_def sign_def)

lemma andThen_requestSignatures: "andThen (requestSignatures s txs) f w =
   (case s (map (heap w) txs) of
      Inl x \<Rightarrow> (Inl x, w\<lparr>log := log w @ [SignAllTransactions (map (heap w) txs)]\<rparr>)
    | Inr x \<Rightarrow> f x (w\<lparr>log := log w @ [SignAllTransactions (map (heap w) txs)]\<rparr>))"
  by (simp add: andThen_def requestSignatures_def call_def split: sum.splits)

lemmas steps = andThen_resolve andThen_call andThen_generate andThen_fetch
  andThen_createTransaction andThen_setFeePayer andThen_setRecentBlockhash andThen_sign
  andThen_requestSignatures

lemma createProgramAccount_run:
  "createProgramAccount prog a n w =
     (case getMinimumBalanceForRentExemption (provider prog) n of
        Inl e \<Rightarrow> (Inl e, w\<lparr>log := log w @ [GetMinimumBalanceForRentExemption n]\<rparr>)
      | Inr l \<Rightarrow>
         (Inr \<lparr>tx = add newTransaction
                  [Ix (CreateAccount a (KeypairPublicKey (generated w)) l n (programId prog))],
               signers = [Keypair (generated w)]\<rparr>,
          w\<lparr>generated := Suc (generated w),
            log := log w @ [GetMinimumBalanceForRentExemption n,
                            KeypairGenerate (Keypair (generated w))]\<rparr>))"
  by (simp add: createProgramAccount_def steps resolve_def split: sum.splits)

lemma createOpenbookMarket_run:
  "createOpenbookMarket prog creator bm qm name ql bl mf tf te oa ob ooa cea cma cfg (Some kp) cfa w =
     (case getMinimumBalanceForRentExemption (provider prog) BooksideSpace of
        Inl e \<Rightarrow> (Inl e, w\<lparr>log := log w @ take 1 (provisioning (generated w))\<rparr>)
      | Inr lb \<Rightarrow>
         (case getMinimumBalanceForRentExemption (provider prog) EventHeapSpace of
            Inl e \<Rightarrow> (Inl e, w\<lparr>generated := Suc (Suc (generated w)),
                               log := log w @ take 5 (provisioning (generated w))\<rparr>)
          | Inr le \<Rightarrow>
             (Inr (builtOpenbookMarket prog creator bm qm name ql bl mf tf te oa ob ooa cea cma
                     cfg kp cfa (generated w) lb le),
              w\<lparr>generated := Suc (Suc (Suc (generated w))),
                log := log w @ provisioning (generated w)\<rparr>)))"
  by (simp add: createOpenbookMarket_def andThen_resolve andThen_def createProgramAccount_run
      resolve_def Let_def findProgramAddressSync_def getAssociatedTokenAddressSync_def
      builtOpenbookMarket_def provisioning_def split: sum.splits)

lemma andThen_createOpenbookMarket:
  "andThen (createOpenbookMarket prog creator bm qm name ql bl mf tf te oa ob ooa cea cma cfg
      (Some kp) cfa) f w =
     (case getMinimumBalanceForRentExemption (provider prog) BooksideSpace of
        Inl e \<Rightarrow> (Inl e, w\<lparr>log := log w @ take 1 (provisioning (generated w))\<rparr>)
      | Inr lb \<Rightarrow>
         (case getMinimumBalanceForRentExemption (provider prog) EventHeapSpace of
            Inl e \<Rightarrow> (Inl e, w\<lparr>generated := Suc (Suc (generated w)),
                               log := log w @ take 5 (provisioning (generated w))\<rparr>)
          | Inr le \<Rightarrow>
             f (builtOpenbookMarket prog creator bm qm name ql bl mf tf te oa ob ooa cea cma
                  cfg kp cfa (generated w) lb le)
               (w\<lparr>generated := Suc (Suc (Suc (generated w))),
                  log := log w @ provisioning (generated w)\<rparr>)))"
  by (simp add: andThen_def createOpenbookMarket_run split: sum.splits)

lemmas run_simps = steps requestVault_def andThen_createOpenbookMarket openbook_def
  openbookTwap_def findProgramAddressSync_def sendAll_def provisioning_def

subsection \<open>The guard\<close>

lemma inScope_the:
  assumes "inScope h mk uk wk sa c"
  shows "the (optionalKey (meta (the (tokens h)))) = mk"
    and "the (optionalKey (usdc (the (tokens h)))) = uk"
    and "the (wallet_publicKey (the (wallet h))) = wk"
    and "the (signAllTransactions (the (wallet h))) = sa"
    and "the (connection h) = c"
  using assms by (auto simp: inScope_def Option.bind_eq_Some_conv)

lemma inScope_guard:
  assumes "inScope h mk uk wk sa c"
  shows "\<not> (Option.bind (tokens h) (\<lambda>t. optionalKey (meta t)) = None \<or>
        Option.bind (tokens h) (\<lambda>t. optionalKey (usdc t)) = None \<or>
        Option.bind (wallet h) wallet_publicKey = None \<or>
        Option.bind (wallet h) signAllTransactions = None \<or>
        connection h = None)"
  using assms by (simp add: inScope_def)

lemma guard_inScope:
  assumes "\<not> (Option.bind (tokens h) (\<lambda>t. optionalKey (meta t)) = None \<or>
        Option.bind (tokens h) (\<lambda>t. optionalKey (usdc t)) = None \<or>
        Option.bind (wallet h) wallet_publicKey = None \<or>
        Option.bind (wallet h) signAllTransactions = None \<or>
        connection h = None)"
  shows "\<exists>mk uk wk sa c. inScope h mk uk wk sa c"
  using assms by (auto simp: inScope_def)

lemma initializeDao_guarded:
  assumes "Option.bind (tokens h) (\<lambda>t. optionalKey (meta t)) = None \<or>
        Option.bind (tokens h) (\<lambda>t. optionalKey (usdc t)) = None \<or>
        Option.bind (wallet h) wallet_publicKey = None \<or>
        Option.bind (wallet h) signAllTransactions = None \<or>
        connection h = None"
  shows "initializeDao h = resolve ()"
  using assms unfolding initializeDao_def by simp

lemma sample_inScope:
  "inScope (sampleHook st) (Base58 ''META'') (Base58 ''USDC'') (Base58 ''wallet'')
     (\<lambda>txs. Inr txs) sampleConnection"
  by (simp add: inScope_def sampleHook_def optionalKey_def)

lemmas sample_simps = sampleHook_def sampleVault_def sampleConnection_def initialWorld_def

lemma sample_reaches:
  "GetLatestBlockhash \<in> set (log (snd (initializeDao (sampleHook st) initialWorld)))"
  unfolding initializeDao_def
  apply (simp only: inScope_guard[OF sample_inScope] if_False inScope_the[OF sample_inScope] Let_def)
  apply (simp add: run_simps sample_simps)
  done

subsection \<open>The vault requests of a run\<close>

lemma shln_simps: "shln (Suc 0) n = 2 ^ n" "shln 1 n = 2 ^ n" "shln 3 n = 3 * 2 ^ n"
  by (simp_all add: shln_def push_bit_eq_mult)

lemma vaultRequests_append: "vaultRequests (xs @ ys) = vaultRequests xs @ vaultRequests ys"
  by (induction xs rule: vaultRequests.induct) simp_all

lemma vaultRequests_sends: "vaultRequests (map (\<lambda>t. SendRawTransaction t b) ts) = []"
  by (induction ts) simp_all

lemma requests_made:
  assumes s: "inScope h mk uk wk sa c"
    and run: "initializeDao h w = (r, w')"
    and new: "log w = []"
  shows "prefix (vaultRequests (log w'))
           [(daoTreasury, mk, baseNonce h),
            (daoTreasury, uk, bn_or (baseNonce h) (shln 1 63)),
            (daoTreasury, mk, bn_or (baseNonce h) (shln 1 62)),
            (daoTreasury, uk, bn_or (baseNonce h) (shln 3 62))] \<and>
          (GetLatestBlockhash \<in> set (log w') \<longrightarrow> length (vaultRequests (log w')) = 4)"
  using run new unfolding initializeDao_def
  apply (simp only: inScope_guard[OF s] if_False inScope_the[OF s] Let_def)
  apply (simp add: run_simps split: sum.splits)
          apply (auto simp: vaultRequests_append vaultRequests_sends)
  done

lemma requests_none:
  assumes "\<not> (\<exists>mk uk wk sa c. inScope h mk uk wk sa c)"
    and run: "initializeDao h w = (r, w')"
  shows "w' = w"
proof -
  have "initializeDao h = resolve ()"
    using assms(1) guard_inScope [of h] initializeDao_guarded [of h] by blast
  then show ?thesis using run by (simp add: resolve_def)
qed

lemma requested_nonces:
  assumes run: "initializeDao h w = (r, w')" and new: "log w = []"
  shows "set (requestedNonces (log w')) \<subseteq>
           {baseNonce h, bn_or (baseNonce h) (shln 1 63), bn_or (baseNonce h) (shln 1 62),
            bn_or (baseNonce h) (shln 3 62)}"
proof (cases "\<exists>mk uk wk sa c. inScope h mk uk wk sa c")
  case True
  then obtain mk uk wk sa c where s: "inScope h mk uk wk sa c" by blast
  have "set (vaultRequests (log w')) \<subseteq> set
           [(daoTreasury, mk, baseNonce h),
            (daoTreasury, uk, bn_or (baseNonce h) (shln 1 63)),
            (daoTreasury, mk, bn_or (baseNonce h) (shln 1 62)),
            (daoTreasury, uk, bn_or (baseNonce h) (shln 3 62))]"
    using requests_made [OF s run new] set_mono_prefix by blast
  then show ?thesis by (auto simp: requestedNonces_def)
next
  case False
  then have "w' = w" using requests_none run by blast
  then show ?thesis using new by (simp add: requestedNonces_def)
qed

lemma low_bits: "n < 2 ^ 62 \<Longrightarrow> take_bit 62 (n OR push_bit 62 c) = (n::nat)"
  by (simp add: take_bit_or take_bit_push_bit take_bit_nat_eq_self)

lemma flags:
  "shln 1 63 = push_bit 62 2" "shln 1 62 = push_bit 62 1" "shln 3 62 = push_bit 62 3"
  by (simp_all add: shln_def push_bit_eq_mult)

lemma nonce_low_bits:
  assumes "b < 2 ^ 62"
    and "x \<in> {b, bn_or b (shln 1 63), bn_or b (shln 1 62), bn_or b (shln 3 62)}"
  shows "take_bit 62 x = b"
proof -
  have "b = b OR push_bit 62 0" by simp
  then have "\<exists>c. x = b OR push_bit 62 c"
    using assms(2) unfolding flags bn_or_def by blast
  then show ?thesis using low_bits [OF assms(1)] by auto
qed

lemma prefix_same_length: "prefix xs ys \<Longrightarrow> length xs = length ys \<Longrightarrow> xs = ys"
  by (auto simp: prefix_def)

lemma sample_requests:
  "vaultRequests (log (snd (initializeDao (sampleHook st) initialWorld))) =
           [(daoTreasury, Base58 ''META'', baseNonce (sampleHook st)),
            (daoTreasury, Base58 ''USDC'', bn_or (baseNonce (sampleHook st)) (shln 1 63)),
            (daoTreasury, Base58 ''META'', bn_or (baseNonce (sampleHook st)) (shln 1 62)),
            (daoTreasury, Base58 ''USDC'', bn_or (baseNonce (sampleHook st)) (shln 3 62))]"
proof -
  have new: "log initialWorld = []" by (simp add: initialWorld_def)
  show ?thesis
    using requests_made [OF sample_inScope prod.collapse [symmetric] new, of st] sample_reaches [of st]
    by (intro prefix_same_length) simp_all
qed

lemma reachable_undefined: "reachableDaoState st \<Longrightarrow> st = None"
  by (induction rule: reachableDaoState.induct) (simp_all add: useEffect_def truthy_def)

lemma createOpenbookMarket_fresh:
  "createOpenbookMarket prog creator bm qm name ql bl mf tf te oa ob ooa cea cma cfg None cfa w =
   createOpenbookMarket prog creator bm qm name ql bl mf tf te oa ob ooa cea cma cfg
     (Some (Keypair (generated w))) cfa
     (w\<lparr>generated := Suc (generated w),
        log := log w @ [KeypairGenerate (Keypair (generated w))]\<rparr>)"
  by (simp add: createOpenbookMarket_def andThen_generate andThen_resolve)

subsection \<open>Runs that reach the batching step\<close>

lemma plus_Suc:
  "n + 1 = Suc n" "n + 2 = Suc (Suc n)" "n + 3 = Suc (Suc (Suc n))"
  "n + 4 = Suc (Suc (Suc (Suc n)))" "n + 5 = Suc (Suc (Suc (Suc (Suc n))))"
  "n + 6 = Suc (Suc (Suc (Suc (Suc (Suc n)))))"
  "n + 7 = Suc (Suc (Suc (Suc (Suc (Suc (Suc n))))))"
  by simp_all

lemma buildingEvent_sends [simp]: "e \<in> set (map (\<lambda>t. SendRawTransaction t b) ts) \<Longrightarrow> \<not> buildingEvent e"
  by auto

lemma generatedKeypairs_append: "generatedKeypairs (xs @ ys) = generatedKeypairs xs @ generatedKeypairs ys"
  by (induction xs rule: generatedKeypairs.induct) simp_all

lemma generatedKeypairs_sends: "generatedKeypairs (map (\<lambda>t. SendRawTransaction t b) ts) = []"
  by (induction ts) simp_all

lemma reached_answers:
  assumes s: "inScope h mk uk wk sa c"
    and run: "initializeDao h w = (r, w')" and new: "log w = []"
    and reach: "e \<in> set (log w')" "\<not> buildingEvent e"
  shows "\<exists>bp qp bf qf lb le. answered h mk uk bp qp bf qf lb le"
  using run new reach unfolding initializeDao_def answered_def
  apply (simp only: inScope_guard[OF s] if_False inScope_the[OF s] Let_def)
  apply (simp add: run_simps shln_simps split: sum.splits)
          apply auto
  done

lemma built_outcome:
  assumes s: "inScope h mk uk wk sa c"
    and run: "initializeDao h w = (r, w')" and new: "log w = []"
    and a: "answered h mk uk bp qp bf qf lb le"
    and g: "g = generated w"
  shows "generatedKeypairs (log w') = map Keypair [g, g + 1, g + 2, g + 3, g + 4, g + 5, g + 6, g + 7]"
    and "instructions (heap w' BaseVaultTx) = instructions (tx bp) @ instructions (tx bf)"
    and "instructions (heap w' QuoteVaultTx) = instructions (tx qp) @ instructions (tx qf)"
    and "instructions (heap w' DaoTx) = [InitializeDaoIx dao mk uk]"
    and "instructions (heap w' TwapsTx) =
       [CreateTwapMarket 1000 (KeypairPublicKey g)
          (ProgramAddress [Utf8 ''twap_market'', KeyBuffer (KeypairPublicKey g)]
             OPENBOOK_TWAP_PROGRAM_ID) wk,
        CreateTwapMarket 1000 (KeypairPublicKey (g + 4))
          (ProgramAddress [Utf8 ''twap_market'', KeyBuffer (KeypairPublicKey (g + 4))]
             OPENBOOK_TWAP_PROGRAM_ID) wk]"
    and "instructions (heap w' PassMarketTx) = concat (map itemInstructions (market_instructions
       (builtOpenbookMarket (openbook h) wk mk uk ''Pass-Market'' 100 1000000000 0 0 0 None None
          (Some (ProgramAddress [Utf8 ''twap_market'', KeyBuffer (KeypairPublicKey g)]
             OPENBOOK_TWAP_PROGRAM_ID)) None
          (Some (ProgramAddress [Utf8 ''twap_market'', KeyBuffer (KeypairPublicKey g)]
             OPENBOOK_TWAP_PROGRAM_ID))
          (Some \<lparr>confFilter = (1, -1), maxStalenessSlots = 100\<rparr>) (Keypair g) None (g + 1) lb le)))"
    and "instructions (heap w' FailMarketTx) = concat (map itemInstructions (market_instructions
       (builtOpenbookMarket (openbook h) wk mk uk ''fMETA/fUSDC'' 100 1000000000 0 0 0 None None
          (Some (ProgramAddress [Utf8 ''twap_market'', KeyBuffer (KeypairPublicKey (g + 4))]
             OPENBOOK_TWAP_PROGRAM_ID)) None
          (Some (ProgramAddress [Utf8 ''twap_market'', KeyBuffer (KeypairPublicKey (g + 4))]
             OPENBOOK_TWAP_PROGRAM_ID))
          (Some \<lparr>confFilter = (1, -1), maxStalenessSlots = 100\<rparr>) (Keypair (g + 4)) None (g + 5) lb le)))"
  using run new a unfolding initializeDao_def answered_def g
        apply -
        apply (simp_all only: inScope_guard[OF s] if_False inScope_the[OF s] Let_def)
        apply (auto simp add: run_simps shln_simps plus_Suc add_def newTransaction_def generatedKeypairs_append generatedKeypairs_sends split: sum.splits)
  done

subsection \<open>The order of a log\<close>

lemma holdsAt_iff: "holdsAt P pre xs \<longleftrightarrow> (\<forall>a x b. xs = a @ x # b \<longrightarrow> P (pre @ a) x b)"
proof (induction xs arbitrary: pre)
  case Nil
  then show ?case by simp
next
  case (Cons y ys)
  show ?case
  proof
    assume h: "holdsAt P pre (y # ys)"
    show "\<forall>a x b. y # ys = a @ x # b \<longrightarrow> P (pre @ a) x b"
    proof (intro allI impI)
      fix a x b assume e: "y # ys = a @ x # b"
      show "P (pre @ a) x b"
      proof (cases a)
        case Nil
        then show ?thesis using h e by simp
      next
        case (Cons a' as)
        then have "ys = as @ x # b" and "a' = y" using e by simp_all
        moreover have "holdsAt P (pre @ [y]) ys" using h by simp
        ultimately have "P ((pre @ [y]) @ as) x b" using Cons.IH by blast
        then show ?thesis using Cons \<open>a' = y\<close> by simp
      qed
    qed
  next
    assume h: "\<forall>a x b. y # ys = a @ x # b \<longrightarrow> P (pre @ a) x b"
    have "P pre y ys" using h [rule_format, of "[]" y ys] by simp
    moreover have "holdsAt P (pre @ [y]) ys"
      unfolding Cons.IH
    proof (intro allI impI)
      fix a x b assume "ys = a @ x # b"
      then have "y # ys = (y # a) @ x # b" by simp
      then have "P (pre @ y # a) x b" using h by blast
      then show "P ((pre @ [y]) @ a) x b" by simp
    qed
    ultimately show "holdsAt P pre (y # ys)" by simp
  qed
qed

lemma holdsAt_sends:
  "holdsAt signedInOrder pre (map (\<lambda>t. SendRawTransaction t b) ts)"
  by (induction ts arbitrary: pre) (simp_all add: signedInOrder_def)

lemma signs_sends: "Sign n ks \<notin> set (map (\<lambda>t. SendRawTransaction t b) ts)"
  by auto

lemma run_in_order:
  assumes run: "initializeDao h w = (r, w')" and new: "log w = []"
  shows "holdsAt signedInOrder [] (log w')"
proof (cases "\<exists>mk uk wk sa c. inScope h mk uk wk sa c")
  case True
  then obtain mk uk wk sa c where s: "inScope h mk uk wk sa c" by blast
  show ?thesis
    using run new unfolding initializeDao_def
    apply (simp only: inScope_guard[OF s] if_False inScope_the[OF s] Let_def)
    apply (simp add: run_simps split: sum.splits)
            apply (auto simp: signedInOrder_def holdsAt_sends add_def newTransaction_def)
    done
next
  case False
  then have "w' = w" using requests_none run by blast
  then show ?thesis using new by simp
qed


subsection \<open>Runs that hand a batch to the wallet\<close>

lemma signingRequests_append: "signingRequests (xs @ ys) = signingRequests xs @ signingRequests ys"
  by (induction xs rule: signingRequests.induct) simp_all

lemma signingRequests_sends: "signingRequests (map (\<lambda>t. SendRawTransaction t b) ts) = []"
  by (induction ts) simp_all

lemma sentTransactions_append: "sentTransactions (xs @ ys) = sentTransactions xs @ sentTransactions ys"
  by (induction xs rule: sentTransactions.induct) simp_all

lemma sentTransactions_sends: "sentTransactions (map (\<lambda>t. SendRawTransaction t b) ts) = ts"
  by (induction ts) simp_all

lemma generated_iff: "KeypairGenerate k \<in> set es \<longleftrightarrow> k \<in> set (generatedKeypairs es)"
  by (induction es rule: generatedKeypairs.induct) auto

lemma handed_outcome:
  assumes s: "inScope h mk uk wk sa c"
    and run: "initializeDao h w = (r, w')" and new: "log w = []"
    and a: "answered h mk uk bp qp bf qf lb le"
    and g: "g = generated w"
    and handed: "SignAllTransactions txs \<in> set (log w')"
  shows "txs = map (heap w') handedOver"
    and "signatures (heap w' BaseVaultTx) = signers bp @ signers bf"
    and "signatures (heap w' QuoteVaultTx) = signers qp @ signers qf"
    and "signatures (heap w' PassMarketTx) = [Keypair (g + 1), Keypair (g + 2), Keypair (g + 3), Keypair g]"
    and "signatures (heap w' FailMarketTx) = [Keypair (g + 5), Keypair (g + 6), Keypair (g + 7), Keypair (g + 4)]"
    and "signatures (heap w' DaoTx) = []"
    and "signatures (heap w' TwapsTx) = []"
    and "signingRequests (log w') = [map (heap w') handedOver]"
    and "sentTransactions (log w') =
           (case sa (map (heap w') handedOver) of Inl e \<Rightarrow> [] | Inr signed \<Rightarrow> signed)"
  using run new a handed unfolding initializeDao_def answered_def g
        apply -
        apply (simp_all only: inScope_guard[OF s] if_False inScope_the[OF s] Let_def)
        apply (auto simp add: run_simps shln_simps plus_Suc add_def newTransaction_def handedOver_def
          builtOpenbookMarket_def signingRequests_append signingRequests_sends
          sentTransactions_append sentTransactions_sends split: sum.splits)
  done

lemma answered_handed:
  assumes s: "inScope h mk uk wk sa c"
    and run: "initializeDao h w = (r, w')" and new: "log w = []"
    and a: "answered h mk uk bp qp bf qf lb le"
    and g: "g = generated w"
    and f: "getLatestBlockhash c (fetched w) = Inr b"
  shows "SignAllTransactions (map (heap w') handedOver) \<in> set (log w')"
    and "Sign PassMarketTx [Keypair (g + 1), Keypair (g + 2), Keypair (g + 3), Keypair g]
           \<in> set (log w')"
  using run new a f unfolding initializeDao_def answered_def g
   apply -
   apply (simp_all only: inScope_guard[OF s] if_False inScope_the[OF s] Let_def)
   apply (auto simp add: run_simps shln_simps plus_Suc add_def newTransaction_def handedOver_def
          builtOpenbookMarket_def split: sum.splits)
  done

lemma split_first:
  "x \<in> set xs \<Longrightarrow> xs = takeWhile (\<lambda>y. y \<noteq> x) xs @ x # tl (dropWhile (\<lambda>y. y \<noteq> x) xs)"
  by (induction xs) auto

lemma sample_answered:
  "answered (sampleHook st) (Base58 ''META'') (Base58 ''USDC'')
     \<lparr>tx = add newTransaction [Ix (VaultInstruction [daoTreasury, Base58 ''META'',
             KeypairPublicKey (1000 + baseNonce (sampleHook st))])],
      signers = [Keypair (1000 + baseNonce (sampleHook st))]\<rparr>
     \<lparr>tx = add newTransaction [Ix (VaultInstruction [daoTreasury, Base58 ''USDC'',
             KeypairPublicKey (1000 + bn_or (baseNonce (sampleHook st)) (shln 1 63))])],
      signers = [Keypair (1000 + bn_or (baseNonce (sampleHook st)) (shln 1 63))]\<rparr>
     \<lparr>tx = add newTransaction [Ix (VaultInstruction [daoTreasury, Base58 ''META'',
             KeypairPublicKey (1000 + bn_or (baseNonce (sampleHook st)) (shln 1 62))])],
      signers = [Keypair (1000 + bn_or (baseNonce (sampleHook st)) (shln 1 62))]\<rparr>
     \<lparr>tx = add newTransaction [Ix (VaultInstruction [daoTreasury, Base58 ''USDC'',
             KeypairPublicKey (1000 + bn_or (baseNonce (sampleHook st)) (shln 3 62))])],
      signers = [Keypair (1000 + bn_or (baseNonce (sampleHook st)) (shln 3 62))]\<rparr>
     ((BooksideSpace + 128) * 6960) ((EventHeapSpace + 128) * 6960)"
  by (simp add: answered_def sampleHook_def sampleVault_def sampleConnection_def)

lemma sample_new: "log initialWorld = []" "generated initialWorld = 0" "fetched initialWorld = 0"
  by (simp_all add: initialWorld_def)

lemma sample_fetch: "getLatestBlockhash sampleConnection (fetched initialWorld) = Inr ''first''"
  by (simp add: sampleConnection_def initialWorld_def)

lemma sampleRun_run: "initializeDao (sampleHook None) initialWorld =
    (fst (initializeDao (sampleHook None) initialWorld), sampleRun)"
  by (simp add: sampleRun_def)

lemmas sample_built =
  built_outcome [OF sample_inScope sampleRun_run sample_new(1) sample_answered sample_new(2) [symmetric]]

lemmas sample_handed =
  answered_handed [OF sample_inScope sampleRun_run sample_new(1) sample_answered
    sample_new(2) [symmetric] sample_fetch]

lemmas sample_outcome =
  handed_outcome [OF sample_inScope sampleRun_run sample_new(1) sample_answered
    sample_new(2) [symmetric] sample_handed(1)]


lemma handed_signs:
  assumes s: "inScope h mk uk wk sa c"
    and run: "initializeDao h w = (r, w')" and new: "log w = []"
    and a: "answered h mk uk bp qp bf qf lb le"
    and g: "g = generated w"
    and handed: "SignAllTransactions txs \<in> set (log w')"
  shows "Sign BaseVaultTx (signers bp @ signers bf) \<in> set (log w')"
    and "Sign QuoteVaultTx (signers qp @ signers qf) \<in> set (log w')"
    and "Sign PassMarketTx [Keypair (g + 1), Keypair (g + 2), Keypair (g + 3), Keypair g]
           \<in> set (log w')"
    and "Sign FailMarketTx [Keypair (g + 5), Keypair (g + 6), Keypair (g + 7), Keypair (g + 4)]
           \<in> set (log w')"
    and "\<forall>ks. Sign TwapsTx ks \<notin> set (log w')"
  using run new a handed unfolding initializeDao_def answered_def g
      apply -
      apply (simp_all only: inScope_guard[OF s] if_False inScope_the[OF s] Let_def)
      apply (auto simp add: run_simps shln_simps plus_Suc builtOpenbookMarket_def split: sum.splits)
  done

lemma sign_before:
  assumes run: "initializeDao h w = (r, w')" and new: "log w = []"
    and handed: "log w' = pre @ SignAllTransactions txs # post"
    and signed: "Sign n ks \<in> set (log w')"
  shows "Sign n ks \<in> set pre"
proof -
  have "signedInOrder pre (SignAllTransactions txs) post"
    using run_in_order [OF run new] handed holdsAt_iff [of signedInOrder "[]" "log w'"] by simp
  then have "Sign n ks \<notin> set post" by (simp add: signedInOrder_def)
  then show ?thesis using signed handed by auto
qed

section \<open>The guard of \<open>initializeDao\<close>\<close>

text \<open>
  Claim C5. When a precondition is missing (no public key of the META or the USDC token, no
  wallet public key, no \<open>signAllTransactions\<close> on the wallet, or no connection),
  \<open>initializeDao\<close> returns at once: the run resolves and leaves the world as it found it,
  with nothing logged, no keypair generated and no transaction built.
\<close>

theorem missing_precondition_returns:
  assumes "Option.bind (tokens h) (\<lambda>t. optionalKey (meta t)) = None \<or>
        Option.bind (tokens h) (\<lambda>t. optionalKey (usdc t)) = None \<or>
        Option.bind (wallet h) wallet_publicKey = None \<or>
        Option.bind (wallet h) signAllTransactions = None \<or>
        connection h = None"
  shows "initializeDao h w = (Inr (), w)"
  using assms unfolding initializeDao_def by (simp add: resolve_def)

theorem missing_precondition_returns_witness:
  "Option.bind (wallet lockedHook) signAllTransactions = None \<and>
   initializeDao lockedHook initialWorld = (Inr (), initialWorld)"
proof -
  have none: "Option.bind (wallet lockedHook) signAllTransactions = None"
    by (simp add: lockedHook_def)
  then show ?thesis
    using missing_precondition_returns [of lockedHook initialWorld] by simp
qed

section \<open>Vault nonces\<close>

text \<open>
  Claim C3. With base nonce 0, a run that gets as far as the batching step asks for four
  vaults under the treasury: the base-pass vault (META mint) with nonce 0, the quote-pass
  vault (USDC mint) with nonce \<open>2^63\<close>, the base-fail vault (META mint) with nonce \<open>2^62\<close> and
  the quote-fail vault (USDC mint) with nonce \<open>3 * 2^62\<close>, in this order.
\<close>

theorem zero_counter_nonces:
  assumes s: "inScope h mk uk wk sa c"
    and zero: "baseNonce h = 0"
    and run: "initializeDao h w = (r, w')"
    and new: "log w = []"
    and reach: "GetLatestBlockhash \<in> set (log w')"
  shows "vaultRequests (log w') =
           [(daoTreasury, mk, 0), (daoTreasury, uk, 2 ^ 63),
            (daoTreasury, mk, 2 ^ 62), (daoTreasury, uk, 3 * 2 ^ 62)]"
proof -
  have p: "prefix (vaultRequests (log w'))
           [(daoTreasury, mk, baseNonce h),
            (daoTreasury, uk, bn_or (baseNonce h) (shln 1 63)),
            (daoTreasury, mk, bn_or (baseNonce h) (shln 1 62)),
            (daoTreasury, uk, bn_or (baseNonce h) (shln 3 62))]"
    and l: "length (vaultRequests (log w')) = 4"
    using requests_made [OF s run new] reach by blast+
  have "vaultRequests (log w') =
           [(daoTreasury, mk, baseNonce h),
            (daoTreasury, uk, bn_or (baseNonce h) (shln 1 63)),
            (daoTreasury, mk, bn_or (baseNonce h) (shln 1 62)),
            (daoTreasury, uk, bn_or (baseNonce h) (shln 3 62))]"
    using p l by (intro prefix_same_length) simp_all
  then show ?thesis by (simp add: zero bn_or_def shln_simps)
qed

theorem zero_counter_nonces_witness:
  "baseNonce (sampleHook (Some \<lparr>proposalCount = 0\<rparr>)) = 0 \<and>
   vaultRequests (log (snd (initializeDao (sampleHook (Some \<lparr>proposalCount = 0\<rparr>)) initialWorld))) =
     [(daoTreasury, Base58 ''META'', 0), (daoTreasury, Base58 ''USDC'', 2 ^ 63),
      (daoTreasury, Base58 ''META'', 2 ^ 62), (daoTreasury, Base58 ''USDC'', 3 * 2 ^ 62)]"
proof -
  have zero: "baseNonce (sampleHook (Some \<lparr>proposalCount = 0\<rparr>)) = 0"
    by (simp add: baseNonce_def sampleHook_def)
  have new: "log initialWorld = []" by (simp add: initialWorld_def)
  show ?thesis
    using zero_counter_nonces [OF sample_inScope zero prod.collapse [symmetric] new sample_reaches]
      zero by simp
qed

text \<open>
  Claim C4. A proposal sequence number is the counter of the Dao account, which the nonce
  keeps in its low bits, below the two flag bits 62 and 63: it is less than \<open>2^62\<close>. For two
  sequence numbers that differ, no nonce that a run with the one asks for is a nonce that a
  run with the other asks for, whichever of the four role flags each of them carries.
\<close>

theorem nonces_disjoint:
  assumes "baseNonce h < 2 ^ 62" and "baseNonce h' < 2 ^ 62"
    and "baseNonce h \<noteq> baseNonce h'"
    and "initializeDao h w = (r, v)" and "log w = []"
    and "initializeDao h' w' = (r', v')" and "log w' = []"
  shows "set (requestedNonces (log v)) \<inter> set (requestedNonces (log v')) = {}"
proof -
  have "take_bit 62 x = baseNonce h" if "x \<in> set (requestedNonces (log v))" for x
    using that requested_nonces [OF assms(4,5)] nonce_low_bits [OF assms(1)] by blast
  moreover have "take_bit 62 x = baseNonce h'" if "x \<in> set (requestedNonces (log v'))" for x
    using that requested_nonces [OF assms(6,7)] nonce_low_bits [OF assms(2)] by blast
  ultimately have "x \<notin> set (requestedNonces (log v'))"
    if "x \<in> set (requestedNonces (log v))" for x
    using that assms(3) by metis
  then show ?thesis by blast
qed

theorem nonces_disjoint_witness:
  "set (requestedNonces (log (snd (initializeDao (sampleHook (Some \<lparr>proposalCount = 5\<rparr>)) initialWorld)))) \<inter>
   set (requestedNonces (log (snd (initializeDao (sampleHook (Some \<lparr>proposalCount = 6\<rparr>)) initialWorld)))) = {} \<and>
   requestedNonces (log (snd (initializeDao (sampleHook (Some \<lparr>proposalCount = 5\<rparr>)) initialWorld))) =
     [5, 2 ^ 63 + 5, 2 ^ 62 + 5, 3 * 2 ^ 62 + 5]"
proof -
  have b: "baseNonce (sampleHook (Some \<lparr>proposalCount = 5\<rparr>)) = 5"
    "baseNonce (sampleHook (Some \<lparr>proposalCount = 6\<rparr>)) = 6"
    by (simp_all add: baseNonce_def sampleHook_def)
  have new: "log initialWorld = []" by (simp add: initialWorld_def)
  have "set (requestedNonces (log (snd (initializeDao (sampleHook (Some \<lparr>proposalCount = 5\<rparr>)) initialWorld)))) \<inter>
   set (requestedNonces (log (snd (initializeDao (sampleHook (Some \<lparr>proposalCount = 6\<rparr>)) initialWorld)))) = {}"
    using nonces_disjoint [OF _ _ _ prod.collapse [symmetric] new prod.collapse [symmetric] new,
        of "sampleHook (Some \<lparr>proposalCount = 5\<rparr>)" "sampleHook (Some \<lparr>proposalCount = 6\<rparr>)"]
    by (simp add: b)
  moreover have "requestedNonces (log (snd (initializeDao (sampleHook (Some \<lparr>proposalCount = 5\<rparr>)) initialWorld))) =
     [5, 2 ^ 63 + 5, 2 ^ 62 + 5, 3 * 2 ^ 62 + 5]"
    by (simp add: requestedNonces_def sample_requests b bn_or_def shln_simps)
  ultimately show ?thesis by blast
qed

section \<open>The cached Dao account\<close>

text \<open>
  Claim C10. The effect fetches the Dao account only when the derived address is falsy, which
  it never is: in every state the hook can reach \<open>daoState\<close> is undefined, whatever the chain
  would answer, so the base nonce is 0 and a run asks for vaults with no other nonces than
  \<open>0\<close>, \<open>2^63\<close>, \<open>2^62\<close> and \<open>3 * 2^62\<close>.
\<close>

theorem dao_state_never_fetched:
  assumes "reachableDaoState (daoState h)"
    and "initializeDao h w = (r, w')" and "log w = []"
  shows "useEffect fetch (daoState h) = daoState h \<and> daoState h = None \<and> baseNonce h = 0 \<and>
         set (requestedNonces (log w')) \<subseteq> {0, 2 ^ 63, 2 ^ 62, 3 * 2 ^ 62}"
proof -
  have none: "daoState h = None" using assms(1) by (rule reachable_undefined)
  then have zero: "baseNonce h = 0" by (simp add: baseNonce_def)
  have "useEffect fetch (daoState h) = daoState h"
    by (simp add: useEffect_def truthy_def)
  moreover have "set (requestedNonces (log w')) \<subseteq> {0, 2 ^ 63, 2 ^ 62, 3 * 2 ^ 62}"
    using requested_nonces [OF assms(2,3)] by (simp add: zero bn_or_def shln_simps)
  ultimately show ?thesis using none zero by blast
qed

theorem dao_state_never_fetched_witness:
  "daoState (sampleHook refetched) = None \<and> baseNonce (sampleHook refetched) = 0 \<and>
   set (requestedNonces (log (snd (initializeDao (sampleHook refetched) initialWorld))))
     \<subseteq> {0, 2 ^ 63, 2 ^ 62, 3 * 2 ^ 62}"
proof -
  have "reachableDaoState refetched"
    unfolding refetched_def by (intro reachableDaoState.intros)
  then have r: "reachableDaoState (daoState (sampleHook refetched))"
    by (simp add: sampleHook_def)
  have new: "log initialWorld = []" by (simp add: initialWorld_def)
  show ?thesis
    using dao_state_never_fetched [OF r prod.collapse [symmetric] new] by blast
qed

section \<open>Provisioned accounts\<close>

text \<open>
  Claim C9. A call of \<open>createOpenbookMarket\<close> that returns has asked for the rent-exempt
  minimum of 90952 bytes twice and of 91288 bytes once, each time followed by the generation
  of a keypair not generated before; its first three items are create-account instructions
  funded by the creator, for the public keys of these keypairs, with the lamports the network
  answered and these sizes; the 90952-byte accounts are the bids and the asks of the market
  and the 91288-byte account is its event heap; the three keypairs are the signers returned.
\<close>

theorem provisioned_accounts:
  assumes run: "createOpenbookMarket prog creator bm qm name ql bl mf tf te oa ob ooa cea cma cfg
                  mkt cfa w = (Inr m, w')"
    and g: "g = (case mkt of None \<Rightarrow> Suc (generated w) | Some kp \<Rightarrow> generated w)"
  shows "\<exists>lb le c a.
     getMinimumBalanceForRentExemption (provider prog) 90952 = Inr lb \<and>
     getMinimumBalanceForRentExemption (provider prog) 91288 = Inr le \<and>
     drop (length (log w') - 6) (log w') =
       [GetMinimumBalanceForRentExemption 90952, KeypairGenerate (Keypair g),
        GetMinimumBalanceForRentExemption 90952, KeypairGenerate (Keypair (g + 1)),
        GetMinimumBalanceForRentExemption 91288, KeypairGenerate (Keypair (g + 2))] \<and>
     market_instructions m =
       [Tx (add newTransaction
              [Ix (CreateAccount creator (KeypairPublicKey g) lb 90952 (programId prog))]),
        Tx (add newTransaction
              [Ix (CreateAccount creator (KeypairPublicKey (g + 1)) lb 90952 (programId prog))]),
        Tx (add newTransaction
              [Ix (CreateAccount creator (KeypairPublicKey (g + 2)) le 91288 (programId prog))]),
        Ix (CreateMarket name c ql bl mf tf te a)] \<and>
     bids a = KeypairPublicKey g \<and> asks a = KeypairPublicKey (g + 1) \<and>
     eventHeap a = KeypairPublicKey (g + 2) \<and>
     market_signers m = [Keypair g, Keypair (g + 1), Keypair (g + 2)] \<and>
     generated w \<le> g \<and> generated w' = g + 3"
proof (cases mkt)
  case None
  show ?thesis
    using run unfolding g None createOpenbookMarket_fresh createOpenbookMarket_run
    by (auto simp: builtOpenbookMarket_def provisioning_def BooksideSpace_def EventHeapSpace_def
        split: sum.splits)
next
  case (Some kp)
  show ?thesis
    using run unfolding g Some createOpenbookMarket_run
    by (auto simp: builtOpenbookMarket_def provisioning_def BooksideSpace_def EventHeapSpace_def
        split: sum.splits)
qed


theorem provisioned_accounts_witness:
  "createOpenbookMarket (openbook (sampleHook None)) (Base58 ''wallet'') (Base58 ''META'')
     (Base58 ''USDC'') ''Pass-Market'' 100 1000000000 0 0 0 None None None None None None None None
     initialWorld =
   (Inr (builtOpenbookMarket (openbook (sampleHook None)) (Base58 ''wallet'') (Base58 ''META'')
           (Base58 ''USDC'') ''Pass-Market'' 100 1000000000 0 0 0 None None None None None None
           (Keypair 0) None 1 633916800 636255360),
    initialWorld\<lparr>generated := 4, log := KeypairGenerate (Keypair 0) # provisioning 1\<rparr>) \<and>
   (\<exists>lb le c a.
     getMinimumBalanceForRentExemption (provider (openbook (sampleHook None))) 90952 = Inr lb \<and>
     getMinimumBalanceForRentExemption (provider (openbook (sampleHook None))) 91288 = Inr le \<and>
     market_instructions (builtOpenbookMarket (openbook (sampleHook None)) (Base58 ''wallet'')
         (Base58 ''META'') (Base58 ''USDC'') ''Pass-Market'' 100 1000000000 0 0 0 None None None
         None None None (Keypair 0) None 1 633916800 636255360) =
       [Tx (add newTransaction [Ix (CreateAccount (Base58 ''wallet'') (KeypairPublicKey 1) lb 90952
              (programId (openbook (sampleHook None))))]),
        Tx (add newTransaction [Ix (CreateAccount (Base58 ''wallet'') (KeypairPublicKey 2) lb 90952
              (programId (openbook (sampleHook None))))]),
        Tx (add newTransaction [Ix (CreateAccount (Base58 ''wallet'') (KeypairPublicKey 3) le 91288
              (programId (openbook (sampleHook None))))]),
        Ix (CreateMarket ''Pass-Market'' c 100 1000000000 0 0 0 a)] \<and>
     bids a = KeypairPublicKey 1 \<and> asks a = KeypairPublicKey 2 \<and>
     eventHeap a = KeypairPublicKey 3)"
proof -
  have run: "createOpenbookMarket (openbook (sampleHook None)) (Base58 ''wallet'')
     (Base58 ''META'') (Base58 ''USDC'') ''Pass-Market'' 100 1000000000 0 0 0 None None None None
     None None None None initialWorld =
   (Inr (builtOpenbookMarket (openbook (sampleHook None)) (Base58 ''wallet'') (Base58 ''META'')
           (Base58 ''USDC'') ''Pass-Market'' 100 1000000000 0 0 0 None None None None None None
           (Keypair 0) None 1 633916800 636255360),
    initialWorld\<lparr>generated := 4, log := KeypairGenerate (Keypair 0) # provisioning 1\<rparr>)"
    by (simp add: createOpenbookMarket_fresh createOpenbookMarket_run openbook_def sample_simps
        BooksideSpace_def EventHeapSpace_def provisioning_def numeral_2_eq_2 numeral_3_eq_3)
  have g: "(1::nat) = (case None :: keypair option of None \<Rightarrow> Suc (generated initialWorld)
                       | Some kp \<Rightarrow> generated initialWorld)"
    by (simp add: initialWorld_def)
  show ?thesis
    using provisioned_accounts [OF run g] run
    by (simp add: numeral_2_eq_2 numeral_3_eq_3) blast
qed


section \<open>Batching\<close>



text \<open>
  Claim C6. In every run, wherever a transaction is signed with keypairs, its fee payer and
  its recent blockhash have been set earlier, neither is set on that transaction again
  afterwards, and no batch has gone to the wallet yet; and wherever a batch goes to the
  wallet, each of its transactions has a fee payer and a recent blockhash, and neither a
  signing with keypairs nor an assignment of a fee payer or of a blockhash follows.
\<close>

theorem signing_order:
  assumes run: "initializeDao h w = (r, w')" and new: "log w = []"
  shows "(\<forall>pre n ks post. log w' = pre @ Sign n ks # post \<longrightarrow>
            (\<exists>k. SetFeePayer n k \<in> set pre) \<and> (\<exists>b. SetRecentBlockhash n b \<in> set pre) \<and>
            (\<forall>txs. SignAllTransactions txs \<notin> set pre) \<and>
            (\<forall>k. SetFeePayer n k \<notin> set post) \<and>
            (\<forall>b. SetRecentBlockhash n b \<notin> set post)) \<and>
         (\<forall>pre txs post. log w' = pre @ SignAllTransactions txs # post \<longrightarrow>
            (\<forall>t \<in> set txs. feePayer t \<noteq> None \<and> recentBlockhash t \<noteq> None) \<and>
            (\<forall>n ks. Sign n ks \<notin> set post) \<and>
            (\<forall>n k. SetFeePayer n k \<notin> set post) \<and>
            (\<forall>n b. SetRecentBlockhash n b \<notin> set post))"
proof -
  have "\<forall>a x b. log w' = a @ x # b \<longrightarrow> signedInOrder a x b"
    using run_in_order [OF run new] holdsAt_iff [of signedInOrder "[]" "log w'"] by simp
  then show ?thesis
    by (fastforce simp: signedInOrder_def)
qed

theorem signing_order_witness:
  "Sign PassMarketTx [Keypair 1, Keypair 2, Keypair 3, Keypair 0] \<in> set (log sampleRun) \<and>
   (\<exists>k. SetFeePayer PassMarketTx k \<in> set (takeWhile
      (\<lambda>e. e \<noteq> Sign PassMarketTx [Keypair 1, Keypair 2, Keypair 3, Keypair 0]) (log sampleRun))) \<and>
   (\<exists>b. SetRecentBlockhash PassMarketTx b \<in> set (takeWhile
      (\<lambda>e. e \<noteq> Sign PassMarketTx [Keypair 1, Keypair 2, Keypair 3, Keypair 0]) (log sampleRun))) \<and>
   SetFeePayer PassMarketTx (Base58 ''wallet'') \<notin> set (tl (dropWhile
      (\<lambda>e. e \<noteq> Sign PassMarketTx [Keypair 1, Keypair 2, Keypair 3, Keypair 0]) (log sampleRun))) \<and>
   SetRecentBlockhash PassMarketTx ''first'' \<notin> set (tl (dropWhile
      (\<lambda>e. e \<noteq> Sign PassMarketTx [Keypair 1, Keypair 2, Keypair 3, Keypair 0]) (log sampleRun))) \<and>
   SignAllTransactions (map (heap sampleRun) handedOver) \<in> set (log sampleRun) \<and>
   list_all (\<lambda>t. feePayer t \<noteq> None \<and> recentBlockhash t \<noteq> None)
     (map (heap sampleRun) handedOver) \<and>
   SetRecentBlockhash PassMarketTx ''first'' \<notin> set (tl (dropWhile
      (\<lambda>e. e \<noteq> SignAllTransactions (map (heap sampleRun) handedOver)) (log sampleRun)))"
proof -
  have signed: "Sign PassMarketTx [Keypair 1, Keypair 2, Keypair 3, Keypair 0] \<in> set (log sampleRun)"
    using sample_handed(2) by (simp add: numeral_2_eq_2)
  note order = signing_order [OF sampleRun_run sample_new(1)]
  show ?thesis
    using order [THEN conjunct1, rule_format, OF split_first [OF signed]]
      order [THEN conjunct2, rule_format, OF split_first [OF sample_handed(1)]]
      signed sample_handed(1)
    by (simp add: list_all_iff)
qed

text \<open>
  Claim C8. A run that reaches the batching step has built six transactions: one with the
  instructions of the base-pass vault followed by those of the base-fail vault, one with
  those of the quote-pass vault followed by those of the quote-fail vault, one per order-book
  market with its three create-account instructions followed by its create-market
  instruction, one with the two create-TWAP-market instructions, and one with the
  DAO-initialization instruction alone.
\<close>

theorem instruction_grouping:
  assumes s: "inScope h mk uk wk sa c"
    and run: "initializeDao h w = (r, w')" and new: "log w = []"
    and reach: "GetLatestBlockhash \<in> set (log w')"
    and g: "g = generated w"
  shows "\<exists>bp qp bf qf lb le cp ap cf af.
     initializeVault h daoTreasury mk (baseNonce h) = Inr bp \<and>
     initializeVault h daoTreasury uk (bn_or (baseNonce h) (shln 1 63)) = Inr qp \<and>
     initializeVault h daoTreasury mk (bn_or (baseNonce h) (shln 1 62)) = Inr bf \<and>
     initializeVault h daoTreasury uk (bn_or (baseNonce h) (shln 3 62)) = Inr qf \<and>
     getMinimumBalanceForRentExemption (useProvider h) BooksideSpace = Inr lb \<and>
     getMinimumBalanceForRentExemption (useProvider h) EventHeapSpace = Inr le \<and>
     instructions (heap w' BaseVaultTx) = instructions (tx bp) @ instructions (tx bf) \<and>
     instructions (heap w' QuoteVaultTx) = instructions (tx qp) @ instructions (tx qf) \<and>
     instructions (heap w' PassMarketTx) =
       [CreateAccount wk (KeypairPublicKey (g + 1)) lb BooksideSpace OPENBOOK_PROGRAM_ID,
        CreateAccount wk (KeypairPublicKey (g + 2)) lb BooksideSpace OPENBOOK_PROGRAM_ID,
        CreateAccount wk (KeypairPublicKey (g + 3)) le EventHeapSpace OPENBOOK_PROGRAM_ID,
        CreateMarket ''Pass-Market'' cp 100 1000000000 0 0 0 ap] \<and>
     market ap = KeypairPublicKey g \<and> bids ap = KeypairPublicKey (g + 1) \<and>
     asks ap = KeypairPublicKey (g + 2) \<and> eventHeap ap = KeypairPublicKey (g + 3) \<and>
     instructions (heap w' FailMarketTx) =
       [CreateAccount wk (KeypairPublicKey (g + 5)) lb BooksideSpace OPENBOOK_PROGRAM_ID,
        CreateAccount wk (KeypairPublicKey (g + 6)) lb BooksideSpace OPENBOOK_PROGRAM_ID,
        CreateAccount wk (KeypairPublicKey (g + 7)) le EventHeapSpace OPENBOOK_PROGRAM_ID,
        CreateMarket ''fMETA/fUSDC'' cf 100 1000000000 0 0 0 af] \<and>
     market af = KeypairPublicKey (g + 4) \<and> bids af = KeypairPublicKey (g + 5) \<and>
     asks af = KeypairPublicKey (g + 6) \<and> eventHeap af = KeypairPublicKey (g + 7) \<and>
     instructions (heap w' TwapsTx) =
       [CreateTwapMarket 1000 (KeypairPublicKey g)
          (ProgramAddress [Utf8 ''twap_market'', KeyBuffer (KeypairPublicKey g)]
             OPENBOOK_TWAP_PROGRAM_ID) wk,
        CreateTwapMarket 1000 (KeypairPublicKey (g + 4))
          (ProgramAddress [Utf8 ''twap_market'', KeyBuffer (KeypairPublicKey (g + 4))]
             OPENBOOK_TWAP_PROGRAM_ID) wk] \<and>
     instructions (heap w' DaoTx) = [InitializeDaoIx dao mk uk]"
  using run new reach unfolding initializeDao_def g
  apply (simp only: inScope_guard[OF s] if_False inScope_the[OF s] Let_def)
  apply (simp add: run_simps split: sum.splits)
          apply (auto simp: add_def newTransaction_def builtOpenbookMarket_def plus_Suc)
  done


theorem instruction_grouping_witness:
  "instructions (heap sampleRun BaseVaultTx) =
     [VaultInstruction [daoTreasury, Base58 ''META'', KeypairPublicKey 1000],
      VaultInstruction [daoTreasury, Base58 ''META'', KeypairPublicKey (1000 + 2 ^ 62)]] \<and>
   instructions (heap sampleRun QuoteVaultTx) =
     [VaultInstruction [daoTreasury, Base58 ''USDC'', KeypairPublicKey (1000 + 2 ^ 63)],
      VaultInstruction [daoTreasury, Base58 ''USDC'', KeypairPublicKey (1000 + 3 * 2 ^ 62)]] \<and>
   take 3 (instructions (heap sampleRun PassMarketTx)) =
     [CreateAccount (Base58 ''wallet'') (KeypairPublicKey 1) 633916800 90952 OPENBOOK_PROGRAM_ID,
      CreateAccount (Base58 ''wallet'') (KeypairPublicKey 2) 633916800 90952 OPENBOOK_PROGRAM_ID,
      CreateAccount (Base58 ''wallet'') (KeypairPublicKey 3) 636255360 91288 OPENBOOK_PROGRAM_ID] \<and>
   length (instructions (heap sampleRun PassMarketTx)) = 4 \<and>
   take 3 (instructions (heap sampleRun FailMarketTx)) =
     [CreateAccount (Base58 ''wallet'') (KeypairPublicKey 5) 633916800 90952 OPENBOOK_PROGRAM_ID,
      CreateAccount (Base58 ''wallet'') (KeypairPublicKey 6) 633916800 90952 OPENBOOK_PROGRAM_ID,
      CreateAccount (Base58 ''wallet'') (KeypairPublicKey 7) 636255360 91288 OPENBOOK_PROGRAM_ID] \<and>
   length (instructions (heap sampleRun FailMarketTx)) = 4 \<and>
   instructions (heap sampleRun TwapsTx) =
     [CreateTwapMarket 1000 (KeypairPublicKey 0)
        (ProgramAddress [Utf8 ''twap_market'', KeyBuffer (KeypairPublicKey 0)]
           OPENBOOK_TWAP_PROGRAM_ID) (Base58 ''wallet''),
      CreateTwapMarket 1000 (KeypairPublicKey 4)
        (ProgramAddress [Utf8 ''twap_market'', KeyBuffer (KeypairPublicKey 4)]
           OPENBOOK_TWAP_PROGRAM_ID) (Base58 ''wallet'')] \<and>
   instructions (heap sampleRun DaoTx) = [InitializeDaoIx dao (Base58 ''META'') (Base58 ''USDC'')]"
proof -
  have reach: "GetLatestBlockhash \<in> set (log sampleRun)"
    unfolding sampleRun_def by (rule sample_reaches)
  have b: "baseNonce (sampleHook None) = 0"
    by (simp add: baseNonce_def sampleHook_def)
  show ?thesis
    using instruction_grouping [OF sample_inScope sampleRun_run sample_new(1) reach
        sample_new(2) [symmetric]]
    by (auto simp: sampleHook_def sampleVault_def sampleConnection_def baseNonce_def bn_or_def
        shln_simps add_def newTransaction_def BooksideSpace_def EventHeapSpace_def)
qed

text \<open>
  Claim C1 fails on the code. The TWAP transaction is built and given its fee payer and
  blockhash, but it is never pushed onto \<open>txs\<close>: in the sample render the wallet is asked
  once, for the two market transactions, the two vault transactions and the DAO transaction;
  these five are sent; and the transaction with the two create-TWAP-market instructions is
  not among them.
\<close>

theorem twaps_left_out:
  "signingRequests (log sampleRun) = [map (heap sampleRun) handedOver] \<and>
   sentTransactions (log sampleRun) = map (heap sampleRun) handedOver \<and>
   heap sampleRun TwapsTx \<notin> set (map (heap sampleRun) handedOver) \<and>
   instructions (heap sampleRun TwapsTx) =
     [CreateTwapMarket 1000 (KeypairPublicKey 0)
        (ProgramAddress [Utf8 ''twap_market'', KeyBuffer (KeypairPublicKey 0)]
           OPENBOOK_TWAP_PROGRAM_ID) (Base58 ''wallet''),
      CreateTwapMarket 1000 (KeypairPublicKey 4)
        (ProgramAddress [Utf8 ''twap_market'', KeyBuffer (KeypairPublicKey 4)]
           OPENBOOK_TWAP_PROGRAM_ID) (Base58 ''wallet'')]"
proof -
  have sent: "sentTransactions (log sampleRun) = map (heap sampleRun) handedOver"
    using sample_outcome(9) by simp
  have "instructions (heap sampleRun TwapsTx) \<noteq> instructions (heap sampleRun n)"
    if "n \<in> set handedOver" for n
    using that
    by (auto simp: handedOver_def sample_built builtOpenbookMarket_def add_def newTransaction_def)
  then have "heap sampleRun TwapsTx \<noteq> heap sampleRun n" if "n \<in> set handedOver" for n
    using that by metis
  then have "heap sampleRun TwapsTx \<notin> set (map (heap sampleRun) handedOver)"
    by auto
  then show ?thesis
    using sample_outcome(8) sent sample_built(5) by simp
qed

text \<open>
  Claim C7, as stated, fails on the TWAP transaction: it references the public keys of the
  two market keypairs, which this run generated, and no signer is applied to it.
\<close>

theorem twaps_unsigned:
  "KeypairGenerate (Keypair 0) \<in> set (log sampleRun) \<and>
   publicKey (Keypair 0) \<in> set (transactionKeys (heap sampleRun TwapsTx)) \<and>
   Keypair 0 \<notin> set (signatures (heap sampleRun TwapsTx))"
proof -
  have "KeypairGenerate (Keypair 0) \<in> set (log sampleRun)"
    using sample_built(1) by (simp add: generated_iff)
  moreover have "publicKey (Keypair 0) \<in> set (transactionKeys (heap sampleRun TwapsTx))"
    by (simp add: transactionKeys_def sample_built(5))
  ultimately show ?thesis by (simp add: sample_outcome(7))
qed

text \<open>
  Claim C7, amended: it holds of every transaction but the TWAP one. The fresh keypairs are
  those that the run generates and those, \<open>F\<close>, that the vault hook made. Suppose that no
  fresh key is one of the keys in scope before the run (the two mints and the wallet key),
  that the keypairs of the vault hook are not among those the run generates, and that the
  vault hook's instructions reference no key that the run generates and reference a keypair
  of \<open>F\<close> only when the hook returned it as a signer. Then, in a run that hands a batch to
  the wallet, for each of the two market transactions, the two vault transactions and the
  DAO transaction, every fresh keypair whose public key the transaction references is in the
  list of signers that was applied to the transaction before the hand-over, and this list is
  what the transaction carries. The run generates eight keypairs; each market transaction
  references the public keys of its market keypair and of its three account keypairs. The
  TWAP transaction references the public keys of the two market keypairs, and no signer is
  ever applied to it.
\<close>

theorem fresh_signers:
  assumes s: "inScope h mk uk wk sa c"
    and run: "initializeDao h w = (r, w')" and new: "log w = []"
    and handed: "log w' = pre @ SignAllTransactions txs # post"
    and g: "g = generated w"
    and known: "\<forall>k. (k \<in> F \<or> KeypairGenerate k \<in> set (log w')) \<longrightarrow> publicKey k \<notin> {mk, uk, wk}"
    and apart: "\<forall>k \<in> F. KeypairGenerate k \<notin> set (log w')"
    and vaults: "\<forall>m n v k. initializeVault h daoTreasury m n = Inr v \<and> m \<in> {mk, uk} \<longrightarrow>
                   (KeypairGenerate k \<in> set (log w') \<longrightarrow>
                      publicKey k \<notin> set (transactionKeys (tx v))) \<and>
                   (k \<in> F \<and> publicKey k \<in> set (transactionKeys (tx v)) \<longrightarrow> k \<in> set (signers v))"
  shows "(\<forall>n \<in> {PassMarketTx, FailMarketTx, BaseVaultTx, QuoteVaultTx, DaoTx}.
            \<forall>k. (k \<in> F \<or> KeypairGenerate k \<in> set (log w')) \<and>
                 publicKey k \<in> set (transactionKeys (heap w' n)) \<longrightarrow>
                 (\<exists>ks. Sign n ks \<in> set pre \<and> k \<in> set ks \<and> signatures (heap w' n) = ks)) \<and>
         set (map KeypairGenerate [Keypair g, Keypair (g + 1), Keypair (g + 2), Keypair (g + 3),
                Keypair (g + 4), Keypair (g + 5), Keypair (g + 6), Keypair (g + 7)])
           \<subseteq> set (log w') \<and>
         set (map publicKey [Keypair g, Keypair (g + 1), Keypair (g + 2), Keypair (g + 3)])
           \<subseteq> set (transactionKeys (heap w' PassMarketTx)) \<and>
         set (map publicKey [Keypair (g + 4), Keypair (g + 5), Keypair (g + 6), Keypair (g + 7)])
           \<subseteq> set (transactionKeys (heap w' FailMarketTx)) \<and>
         set (map publicKey [Keypair g, Keypair (g + 4)])
           \<subseteq> set (transactionKeys (heap w' TwapsTx)) \<and>
         signatures (heap w' TwapsTx) = [] \<and>
         (\<forall>ks. Sign TwapsTx ks \<notin> set (log w'))"
proof -
  have h': "SignAllTransactions txs \<in> set (log w')" using handed by simp
  obtain bp qp bf qf lb le where a: "answered h mk uk bp qp bf qf lb le"
    using reached_answers [OF s run new h'] by auto
  note b = built_outcome [OF s run new a g]
  note ho = handed_outcome [OF s run new a g h']
  note hs = handed_signs [OF s run new a g h']
  note before = sign_before [OF run new handed]
  have K: "k \<in> set (map Keypair [g, g + 1, g + 2, g + 3, g + 4, g + 5, g + 6, g + 7])"
    if "KeypairGenerate k \<in> set (log w')" for k
    using that b(1) by (simp only: generated_iff)
  have F: "k \<notin> set (map Keypair [g, g + 1, g + 2, g + 3, g + 4, g + 5, g + 6, g + 7])"
    if "k \<in> F" for k
    using that apart b(1) by (auto simp only: generated_iff)
  have pass: "\<exists>ks. Sign PassMarketTx ks \<in> set pre \<and> k \<in> set ks \<and>
                   signatures (heap w' PassMarketTx) = ks"
    if "k \<in> F \<or> KeypairGenerate k \<in> set (log w')"
      and "publicKey k \<in> set (transactionKeys (heap w' PassMarketTx))" for k
  proof -
    have "k \<in> set [Keypair (g + 1), Keypair (g + 2), Keypair (g + 3), Keypair g]"
      using that(2) that(1) K [of k] F [of k] known [rule_format, OF that(1)]
      by (cases k) (auto simp: transactionKeys_def b(6) builtOpenbookMarket_def add_def
          newTransaction_def List.map_filter_def)
    then show ?thesis using before [OF hs(3)] ho(4) by blast
  qed
  have fail: "\<exists>ks. Sign FailMarketTx ks \<in> set pre \<and> k \<in> set ks \<and>
                   signatures (heap w' FailMarketTx) = ks"
    if "k \<in> F \<or> KeypairGenerate k \<in> set (log w')"
      and "publicKey k \<in> set (transactionKeys (heap w' FailMarketTx))" for k
  proof -
    have "k \<in> set [Keypair (g + 5), Keypair (g + 6), Keypair (g + 7), Keypair (g + 4)]"
      using that(2) that(1) K [of k] F [of k] known [rule_format, OF that(1)]
      by (cases k) (auto simp: transactionKeys_def b(7) builtOpenbookMarket_def add_def
          newTransaction_def List.map_filter_def)
    then show ?thesis using before [OF hs(4)] ho(5) by blast
  qed
  have dao: "\<exists>ks. Sign DaoTx ks \<in> set pre \<and> k \<in> set ks \<and> signatures (heap w' DaoTx) = ks"
    if "k \<in> F \<or> KeypairGenerate k \<in> set (log w')"
      and "publicKey k \<in> set (transactionKeys (heap w' DaoTx))" for k
    using that(2) known [rule_format, OF that(1)]
    by (cases k) (auto simp: transactionKeys_def b(4) dao_def findProgramAddressSync_def)
  have base: "\<exists>ks. Sign BaseVaultTx ks \<in> set pre \<and> k \<in> set ks \<and>
                   signatures (heap w' BaseVaultTx) = ks"
    if "k \<in> F \<or> KeypairGenerate k \<in> set (log w')"
      and "publicKey k \<in> set (transactionKeys (heap w' BaseVaultTx))" for k
  proof -
    note vp = vaults [rule_format, of mk "baseNonce h" bp k]
    note vf = vaults [rule_format, of mk "bn_or (baseNonce h) (shln 1 62)" bf k]
    have ap: "initializeVault h daoTreasury mk (baseNonce h) = Inr bp \<and> mk \<in> {mk, uk}"
      and af: "initializeVault h daoTreasury mk (bn_or (baseNonce h) (shln 1 62)) = Inr bf \<and>
               mk \<in> {mk, uk}"
      using a by (simp_all add: answered_def)
    have "publicKey k \<in> set (transactionKeys (tx bp)) \<or>
          publicKey k \<in> set (transactionKeys (tx bf))"
      using that(2) by (simp add: transactionKeys_def b(2))
    then have "k \<in> set (signers bp @ signers bf)"
      using that(1) vp [OF ap] vf [OF af] by auto
    then show ?thesis using before [OF hs(1)] ho(2) by blast
  qed
  have quote: "\<exists>ks. Sign QuoteVaultTx ks \<in> set pre \<and> k \<in> set ks \<and>
                   signatures (heap w' QuoteVaultTx) = ks"
    if "k \<in> F \<or> KeypairGenerate k \<in> set (log w')"
      and "publicKey k \<in> set (transactionKeys (heap w' QuoteVaultTx))" for k
  proof -
    note vp = vaults [rule_format, of uk "bn_or (baseNonce h) (shln 1 63)" qp k]
    note vf = vaults [rule_format, of uk "bn_or (baseNonce h) (shln 3 62)" qf k]
    have ap: "initializeVault h daoTreasury uk (bn_or (baseNonce h) (shln 1 63)) = Inr qp \<and>
              uk \<in> {mk, uk}"
      and af: "initializeVault h daoTreasury uk (bn_or (baseNonce h) (shln 3 62)) = Inr qf \<and>
               uk \<in> {mk, uk}"
      using a by (simp_all add: answered_def)
    have "publicKey k \<in> set (transactionKeys (tx qp)) \<or>
          publicKey k \<in> set (transactionKeys (tx qf))"
      using that(2) by (simp add: transactionKeys_def b(3))
    then have "k \<in> set (signers qp @ signers qf)"
      using that(1) vp [OF ap] vf [OF af] by auto
    then show ?thesis using before [OF hs(2)] ho(3) by blast
  qed
  have first: "\<forall>n \<in> {PassMarketTx, FailMarketTx, BaseVaultTx, QuoteVaultTx, DaoTx}.
            \<forall>k. (k \<in> F \<or> KeypairGenerate k \<in> set (log w')) \<and>
                 publicKey k \<in> set (transactionKeys (heap w' n)) \<longrightarrow>
                 (\<exists>ks. Sign n ks \<in> set pre \<and> k \<in> set ks \<and> signatures (heap w' n) = ks)"
  proof (intro ballI allI impI, elim conjE)
    fix n k
    assume n: "n \<in> {PassMarketTx, FailMarketTx, BaseVaultTx, QuoteVaultTx, DaoTx}"
      and k: "k \<in> F \<or> KeypairGenerate k \<in> set (log w')"
      and p: "publicKey k \<in> set (transactionKeys (heap w' n))"
    from n consider "n = PassMarketTx" | "n = FailMarketTx" | "n = BaseVaultTx"
      | "n = QuoteVaultTx" | "n = DaoTx" by auto
    then show "\<exists>ks. Sign n ks \<in> set pre \<and> k \<in> set ks \<and> signatures (heap w' n) = ks"
    proof cases
      case 1 then show ?thesis using pass [OF k] p by simp
    next
      case 2 then show ?thesis using fail [OF k] p by simp
    next
      case 3 then show ?thesis using base [OF k] p by simp
    next
      case 4 then show ?thesis using quote [OF k] p by simp
    next
      case 5 then show ?thesis using dao [OF k] p by simp
    qed
  qed
  have gen: "set (map KeypairGenerate [Keypair g, Keypair (g + 1), Keypair (g + 2),
                Keypair (g + 3), Keypair (g + 4), Keypair (g + 5), Keypair (g + 6),
                Keypair (g + 7)]) \<subseteq> set (log w')"
    using b(1) by (simp add: generated_iff)
  have refs: "set (map publicKey [Keypair g, Keypair (g + 1), Keypair (g + 2), Keypair (g + 3)])
           \<subseteq> set (transactionKeys (heap w' PassMarketTx))"
    "set (map publicKey [Keypair (g + 4), Keypair (g + 5), Keypair (g + 6), Keypair (g + 7)])
           \<subseteq> set (transactionKeys (heap w' FailMarketTx))"
    "set (map publicKey [Keypair g, Keypair (g + 4)])
           \<subseteq> set (transactionKeys (heap w' TwapsTx))"
    by (simp_all add: transactionKeys_def b(5,6,7) builtOpenbookMarket_def add_def
        newTransaction_def)
  show ?thesis
    using first gen refs ho(7) hs(5) by blast
qed


theorem fresh_signers_witness:
  "KeypairGenerate (Keypair 0) \<in> set (log sampleRun) \<and>
   publicKey (Keypair 0) \<in> set (transactionKeys (heap sampleRun PassMarketTx)) \<and>
   (\<exists>ks. Sign PassMarketTx ks \<in> set (takeWhile
            (\<lambda>e. e \<noteq> SignAllTransactions (map (heap sampleRun) handedOver)) (log sampleRun)) \<and>
         Keypair 0 \<in> set ks \<and> signatures (heap sampleRun PassMarketTx) = ks) \<and>
   Keypair 1000 \<in> sampleVaultKeypairs \<and>
   publicKey (Keypair 1000) \<in> set (transactionKeys (heap sampleRun BaseVaultTx)) \<and>
   (\<exists>ks. Sign BaseVaultTx ks \<in> set (takeWhile
            (\<lambda>e. e \<noteq> SignAllTransactions (map (heap sampleRun) handedOver)) (log sampleRun)) \<and>
         Keypair 1000 \<in> set ks \<and> signatures (heap sampleRun BaseVaultTx) = ks) \<and>
   signatures (heap sampleRun TwapsTx) = []"
proof -
  have gen: "generatedKeypairs (log sampleRun) =
      map Keypair [0, 0 + 1, 0 + 2, 0 + 3, 0 + 4, 0 + 5, 0 + 6, 0 + 7]"
    by (rule sample_built(1))
  have known: "\<forall>k. (k \<in> sampleVaultKeypairs \<or> KeypairGenerate k \<in> set (log sampleRun)) \<longrightarrow>
                 publicKey k \<notin> {Base58 ''META'', Base58 ''USDC'', Base58 ''wallet''}"
  proof (intro allI impI)
    fix k show "publicKey k \<notin> {Base58 ''META'', Base58 ''USDC'', Base58 ''wallet''}"
      by (cases k) simp
  qed
  have apart: "\<forall>k \<in> sampleVaultKeypairs. KeypairGenerate k \<notin> set (log sampleRun)"
    by (simp add: generated_iff gen sampleVaultKeypairs_def)
  have vaults: "\<forall>m n v k. initializeVault (sampleHook None) daoTreasury m n = Inr v \<and>
                  m \<in> {Base58 ''META'', Base58 ''USDC''} \<longrightarrow>
                   (KeypairGenerate k \<in> set (log sampleRun) \<longrightarrow>
                      publicKey k \<notin> set (transactionKeys (tx v))) \<and>
                   (k \<in> sampleVaultKeypairs \<and> publicKey k \<in> set (transactionKeys (tx v))
                      \<longrightarrow> k \<in> set (signers v))"
  proof (intro allI impI, elim conjE)
    fix m n v k
    assume v: "initializeVault (sampleHook None) daoTreasury m n = Inr v"
      and m: "m \<in> {Base58 ''META'', Base58 ''USDC''}"
    have keys: "transactionKeys (tx v) = [daoTreasury, m, KeypairPublicKey (1000 + n)]"
      and sg: "signers v = [Keypair (1000 + n)]"
      using v by (auto simp: sampleHook_def sampleVault_def transactionKeys_def add_def
          newTransaction_def)
    show "(KeypairGenerate k \<in> set (log sampleRun) \<longrightarrow>
            publicKey k \<notin> set (transactionKeys (tx v))) \<and>
          (k \<in> sampleVaultKeypairs \<and> publicKey k \<in> set (transactionKeys (tx v))
            \<longrightarrow> k \<in> set (signers v))"
      using m unfolding keys sg
      by (cases k) (auto simp: generated_iff gen daoTreasury_def findProgramAddressSync_def)
  qed
  have handed: "log sampleRun =
      takeWhile (\<lambda>e. e \<noteq> SignAllTransactions (map (heap sampleRun) handedOver)) (log sampleRun) @
      SignAllTransactions (map (heap sampleRun) handedOver) #
      tl (dropWhile (\<lambda>e. e \<noteq> SignAllTransactions (map (heap sampleRun) handedOver))
            (log sampleRun))"
    by (rule split_first [OF sample_handed(1)])
  note inst = fresh_signers [OF sample_inScope sampleRun_run sample_new(1) handed
      sample_new(2) [symmetric] known apart vaults]
  have k0: "KeypairGenerate (Keypair 0) \<in> set (log sampleRun)"
    by (simp add: generated_iff gen)
  have p0: "publicKey (Keypair 0) \<in> set (transactionKeys (heap sampleRun PassMarketTx))"
    by (simp add: transactionKeys_def sample_built(6) builtOpenbookMarket_def)
  have f: "Keypair 1000 \<in> sampleVaultKeypairs" by (simp add: sampleVaultKeypairs_def)
  have b0: "baseNonce (sampleHook None) = 0" by (simp add: baseNonce_def sampleHook_def)
  have p1: "publicKey (Keypair 1000) \<in> set (transactionKeys (heap sampleRun BaseVaultTx))"
    by (simp add: transactionKeys_def sample_built(2) add_def newTransaction_def b0)
  have pass: "\<exists>ks. Sign PassMarketTx ks \<in> set (takeWhile
            (\<lambda>e. e \<noteq> SignAllTransactions (map (heap sampleRun) handedOver)) (log sampleRun)) \<and>
         Keypair 0 \<in> set ks \<and> signatures (heap sampleRun PassMarketTx) = ks"
    using inst [THEN conjunct1, rule_format, of PassMarketTx "Keypair 0"] k0 p0 by simp
  have base: "\<exists>ks. Sign BaseVaultTx ks \<in> set (takeWhile
            (\<lambda>e. e \<noteq> SignAllTransactions (map (heap sampleRun) handedOver)) (log sampleRun)) \<and>
         Keypair 1000 \<in> set ks \<and> signatures (heap sampleRun BaseVaultTx) = ks"
    using inst [THEN conjunct1, rule_format, of BaseVaultTx "Keypair 1000"] f p1 by simp
  have twap: "signatures (heap sampleRun TwapsTx) = []"
    using inst by blast
  show ?thesis using k0 p0 pass f p1 base twap by blast
qed


end
